theory Spec2Isabelle
  imports Main "HOL-Library.Word"
begin

unbundle bit_operations_syntax

section \<open>Conventions\<close>

text \<open>
  Go's \<open>int\<close> is modelled as \<open>int\<close> wherever the code only copies or compares it;
  \<open>int64\<close> timestamps, on which the code subtracts, are \<open>64 word\<close>. A Go string is a
  \<open>string\<close> (a list of bytes). A pointer that the code tests against \<open>nil\<close> is an
  \<open>option\<close>. A slice whose only uses are \<open>len\<close> and \<open>range\<close> is a list (a nil slice
  and an empty one behave alike there); a slice that the code compares with \<open>nil\<close> is a
  \<open>list option\<close>, \<open>None\<close> being nil.

  Functions of Go's standard library and of packages outside this repository that the
  code calls (\<open>strings.ToLower\<close>, \<open>strings.EqualFold\<close>) enter the model as
  parameters of the functions that call them, so every theorem holds for whatever
  these functions compute. \<open>ascii_ToLower\<close> and \<open>ascii_EqualFold\<close> are their
  restrictions to ASCII letters, used where a concrete instance is evaluated.
\<close>

definition ascii_lower_char :: "char \<Rightarrow> char" where
  "ascii_lower_char c =
     (let n = (of_char c :: nat) in if 65 \<le> n \<and> n \<le> 90 then char_of (n + 32) else c)"

definition ascii_ToLower :: "string \<Rightarrow> string" where
  "ascii_ToLower s = map ascii_lower_char s"

definition ascii_EqualFold :: "string \<Rightarrow> string \<Rightarrow> bool" where
  "ascii_EqualFold s t = (ascii_ToLower s = ascii_ToLower t)"

section \<open>Package mediaprovider: the album filter\<close>

text \<open>
  \<open>mediaprovider.Album\<close> is declared outside the files at hand; its fields are those
  that \<open>fillAlbum\<close> assigns and \<open>Matches\<close> reads. \<open>ReleaseTypes\<close> is the bit mask
  type of the package, an integer type of some width \<open>'w\<close>.
\<close>

record (overloaded) 'w Album =
  ID :: string
  CoverArtID :: string
  Name :: string
  Duration :: int
  ArtistIDs :: "string list"
  ArtistNames :: "string list"
  Year :: int
  TrackCount :: int
  Genres :: "string list"
  Favorite :: bool
  ReleaseTypes :: "'w word"

record AlbumFilter =
  MinYear :: int
  MaxYear :: int
  Genres :: "string list"
  ExcludeFavorited :: bool
  ExcludeUnfavorited :: bool

text \<open>The zero value \<open>AlbumFilter{}\<close>.\<close>

definition AlbumFilter_zero :: AlbumFilter where
  "AlbumFilter_zero =
     \<lparr>AlbumFilter.MinYear = 0, AlbumFilter.MaxYear = 0, AlbumFilter.Genres = [],
      AlbumFilter.ExcludeFavorited = False, AlbumFilter.ExcludeUnfavorited = False\<rparr>"

definition IsNil :: "AlbumFilter \<Rightarrow> bool" where
  "IsNil a =
     (AlbumFilter.MinYear a = 0 \<and> AlbumFilter.MaxYear a = 0 \<and>
      length (AlbumFilter.Genres a) = 0 \<and>
      \<not> AlbumFilter.ExcludeFavorited a \<and> \<not> AlbumFilter.ExcludeUnfavorited a)"

text \<open>
  \<open>genresMatch\<close>: two nested \<open>range\<close> loops that return true at the first pair of
  genres equal under \<open>strings.EqualFold\<close>.
\<close>

primrec genresMatch_inner :: "(string \<Rightarrow> string \<Rightarrow> bool) \<Rightarrow> string \<Rightarrow> string list \<Rightarrow> bool" where
  "genresMatch_inner EqualFold g1 [] = False"
| "genresMatch_inner EqualFold g1 (g2 # albumGenres) =
     (if EqualFold g1 g2 then True else genresMatch_inner EqualFold g1 albumGenres)"

primrec genresMatch :: "(string \<Rightarrow> string \<Rightarrow> bool) \<Rightarrow> string list \<Rightarrow> string list \<Rightarrow> bool" where
  "genresMatch EqualFold [] albumGenres = False"
| "genresMatch EqualFold (g1 # filterGenres) albumGenres =
     (if genresMatch_inner EqualFold g1 albumGenres then True
      else genresMatch EqualFold filterGenres albumGenres)"

text \<open>\<open>Matches\<close> takes a pointer to an album: \<open>None\<close> is the nil pointer.\<close>

definition Matches :: "(string \<Rightarrow> string \<Rightarrow> bool) \<Rightarrow> AlbumFilter \<Rightarrow> 'w::len Album option \<Rightarrow> bool" where
  "Matches EqualFold f album =
     (case album of
        None \<Rightarrow> False
      | Some a \<Rightarrow>
          if AlbumFilter.ExcludeFavorited f \<and> Album.Favorite a then False
          else if AlbumFilter.ExcludeUnfavorited f \<and> \<not> Album.Favorite a then False
          else if Album.Year a < AlbumFilter.MinYear f \<or>
                  (AlbumFilter.MaxYear f > 0 \<and> Album.Year a > AlbumFilter.MaxYear f) then False
          else if length (AlbumFilter.Genres f) = 0 then True
          else genresMatch EqualFold (AlbumFilter.Genres f) (Album.Genres a))"

section \<open>Package subsonic of the client library: the server's records\<close>

text \<open>
  The records that the client library (go-subsonic) hands to the provider, with the
  fields that the code reads. \<open>Starred\<close> is a \<open>time.Time\<close>; the code only asks
  \<open>IsZero\<close> of it, which is true of the zero instant (second 0, nanosecond 0 of the
  year 1) alone. Elements of the \<open>Artists\<close> and \<open>Genres\<close> extension lists are read
  through their \<open>ID\<close> and \<open>Name\<close> fields.
\<close>

record Time =
  sec :: int
  nsec :: int

definition IsZero :: "Time \<Rightarrow> bool" where
  "IsZero t = (sec t = 0 \<and> nsec t = 0)"

record ArtistRef =
  ID :: string
  Name :: string

record ItemGenre =
  Name :: string

record Child =
  ID :: string
  CoverArt :: string
  Parent :: string
  Title :: string
  Duration :: int
  Track :: int
  DiscNumber :: int
  Genre :: string
  Artists :: "ArtistRef list"
  Artist :: string
  ArtistID :: string
  Album :: string
  AlbumID :: string
  Year :: int
  UserRating :: int
  Starred :: Time
  PlayCount :: int
  Path :: string
  Size :: int
  BitRate :: int
  Comment :: string

record AlbumID3 =
  ID :: string
  CoverArt :: string
  Name :: string
  Duration :: int
  Artists :: "ArtistRef list"
  Artist :: string
  ArtistID :: string
  Year :: int
  SongCount :: int
  Genres :: "ItemGenre list"
  Genre :: string
  Starred :: Time
  ReleaseTypes :: "string list"
  IsCompilation :: bool
  Song :: "Child option list option"

record subsonic_Genre =
  Name :: string
  AlbumCount :: int
  SongCount :: int

record subsonic_Playlist =
  Name :: string
  ID :: string
  CoverArt :: string
  Comment :: string
  Owner :: string
  Public :: bool
  SongCount :: int
  Duration :: int
  Entry :: "Child option list option"

record OpenSubsonicExtension =
  Name :: string
  Versions :: "int list"

text \<open>
  The records of the artist, index and starred queries. Their lists are slices of
  pointers: an element is an \<open>option\<close>, and a slice that is handed to \<open>MapSlice\<close> is
  a \<open>list option\<close>.
\<close>

record ArtistID3 =
  ID :: string
  CoverArt :: string
  Name :: string
  Starred :: Time
  AlbumCount :: int
  Album :: "AlbumID3 option list option"

record ArtistInfo2 =
  Biography :: string
  LastFmUrl :: string
  LargeImageUrl :: string
  SimilarArtist :: "ArtistID3 option list option"

record IndexID3 =
  Artist :: "ArtistID3 option list"

record ArtistsID3 =
  Index :: "IndexID3 option list"

record Starred2 =
  Album :: "AlbumID3 option list option"
  Artist :: "ArtistID3 option list option"
  Song :: "Child option list option"

section \<open>Package mediaprovider: the entities\<close>

record Track =
  ID :: string
  CoverArtID :: string
  ParentID :: string
  Name :: string
  Duration :: int
  TrackNumber :: int
  DiscNumber :: int
  Genre :: string
  ArtistIDs :: "string list"
  ArtistNames :: "string list"
  Album :: string
  AlbumID :: string
  Year :: int
  Rating :: int
  Favorite :: bool
  PlayCount :: int
  FilePath :: string
  Size :: int
  BitRate :: int
  Comment :: string

record Genre =
  Name :: string
  AlbumCount :: int
  TrackCount :: int

record Playlist =
  Name :: string
  ID :: string
  CoverArtID :: string
  Description :: string
  Owner :: string
  Public :: bool
  TrackCount :: int
  Duration :: int

record Artist =
  ID :: string
  CoverArtID :: string
  Name :: string
  Favorite :: bool
  AlbumCount :: int

record ArtistInfo =
  Biography :: string
  LastFMUrl :: string
  ImageURL :: string
  SimilarArtists :: "Artist option list option"

text \<open>
  The extended forms embed the plain entity (Go names an embedded field by its type)
  and add a slice of pointers.
\<close>

record (overloaded) 'w AlbumWithTracks =
  Album :: "'w Album"
  Tracks :: "Track option list option"

record (overloaded) 'w ArtistWithAlbums =
  Artist :: Artist
  Albums :: "'w Album option list option"

record PlaylistWithTracks =
  Playlist :: Playlist
  Tracks :: "Track option list option"

record (overloaded) 'w Favorites =
  Albums :: "'w Album option list option"
  Artists :: "Artist option list option"
  Tracks :: "Track option list option"

text \<open>
  The release type constants \<open>mediaprovider.ReleaseTypeAlbum\<close>, ... are declared
  outside the files at hand. Their values enter the model as a table \<open>mp\<close>, a
  parameter of the functions that use them.
\<close>

record (overloaded) 'w ReleaseTypeConsts =
  ReleaseTypeAlbum :: "'w word"
  ReleaseTypeAudiobook :: "'w word"
  ReleaseTypeAudioDrama :: "'w word"
  ReleaseTypeBroadcast :: "'w word"
  ReleaseTypeCompilation :: "'w word"
  ReleaseTypeDemo :: "'w word"
  ReleaseTypeDJMix :: "'w word"
  ReleaseTypeEP :: "'w word"
  ReleaseTypeFieldRecording :: "'w word"
  ReleaseTypeInterview :: "'w word"
  ReleaseTypeLive :: "'w word"
  ReleaseTypeMixtape :: "'w word"
  ReleaseTypeRemix :: "'w word"
  ReleaseTypeSingle :: "'w word"
  ReleaseTypeSoundtrack :: "'w word"
  ReleaseTypeSpokenWord :: "'w word"

section \<open>The entity translator\<close>

text \<open>
  The loop \<open>for _, a := range Artists\<close> of \<open>toTrack\<close> and \<open>fillAlbum\<close>: it appends
  each element's \<open>ID\<close> to \<open>artistIDs\<close> and its \<open>Name\<close> to \<open>artistNames\<close>. The
  accumulator is the pair (\<open>artistNames\<close>, \<open>artistIDs\<close>), both nil at the start.
\<close>

fun range_Artists :: "ArtistRef list \<Rightarrow> string list \<times> string list \<Rightarrow> string list \<times> string list" where
  "range_Artists [] (artistNames, artistIDs) = (artistNames, artistIDs)"
| "range_Artists (a # rest) (artistNames, artistIDs) =
     range_Artists rest (artistNames @ [ArtistRef.Name a], artistIDs @ [ArtistRef.ID a])"

text \<open>The loop \<open>for _, g := range subAlbum.Genres\<close> of \<open>fillAlbum\<close>.\<close>

fun range_Genres :: "ItemGenre list \<Rightarrow> string list \<Rightarrow> string list" where
  "range_Genres [] genres = genres"
| "range_Genres (g # rest) genres = range_Genres rest (genres @ [ItemGenre.Name g])"

definition toTrack :: "Child option \<Rightarrow> Track option" where
  "toTrack ch =
     (case ch of
        None \<Rightarrow> None
      | Some c \<Rightarrow>
          (let (artistNames, artistIDs) =
                 (if length (Child.Artists c) > 0 then range_Artists (Child.Artists c) ([], [])
                  else ([] @ [Child.Artist c], [] @ [Child.ArtistID c]))
           in Some
             \<lparr>Track.ID = Child.ID c,
              Track.CoverArtID = Child.CoverArt c,
              Track.ParentID = Child.Parent c,
              Track.Name = Child.Title c,
              Track.Duration = Child.Duration c,
              Track.TrackNumber = Child.Track c,
              Track.DiscNumber = Child.DiscNumber c,
              Track.Genre = Child.Genre c,
              Track.ArtistIDs = artistIDs,
              Track.ArtistNames = artistNames,
              Track.Album = Child.Album c,
              Track.AlbumID = Child.AlbumID c,
              Track.Year = Child.Year c,
              Track.Rating = Child.UserRating c,
              Track.Favorite = (\<not> IsZero (Child.Starred c)),
              Track.PlayCount = Child.PlayCount c,
              Track.FilePath = Child.Path c,
              Track.Size = Child.Size c,
              Track.BitRate = Child.BitRate c,
              Track.Comment = Child.Comment c\<rparr>))"

subsection \<open>The release type classifier\<close>

text \<open>\<open>strings.ReplaceAll(t, " ", "")\<close> deletes every space of \<open>t\<close>.\<close>

definition ReplaceAll_space :: "string \<Rightarrow> string" where
  "ReplaceAll_space t = filter (\<lambda>c. c \<noteq> CHR '' '') t"

text \<open>The \<open>switch\<close> of \<open>normalizeReleaseTypes\<close>: the bit of a normalized label, or no change.\<close>

definition switch_label :: "'w::len ReleaseTypeConsts \<Rightarrow> string \<Rightarrow> 'w word \<Rightarrow> 'w word" where
  "switch_label mp l mpReleaseTypes =
     (if l = ''album'' then mpReleaseTypes OR ReleaseTypeAlbum mp
      else if l = ''audiobook'' then mpReleaseTypes OR ReleaseTypeAudiobook mp
      else if l = ''audiodrama'' then mpReleaseTypes OR ReleaseTypeAudioDrama mp
      else if l = ''broadcast'' then mpReleaseTypes OR ReleaseTypeBroadcast mp
      else if l = ''compilation'' then mpReleaseTypes OR ReleaseTypeCompilation mp
      else if l = ''demo'' then mpReleaseTypes OR ReleaseTypeDemo mp
      else if l = ''djmix'' then mpReleaseTypes OR ReleaseTypeDJMix mp
      else if l = ''ep'' then mpReleaseTypes OR ReleaseTypeEP mp
      else if l = ''fieldrecording'' then mpReleaseTypes OR ReleaseTypeFieldRecording mp
      else if l = ''interview'' then mpReleaseTypes OR ReleaseTypeInterview mp
      else if l = ''live'' then mpReleaseTypes OR ReleaseTypeLive mp
      else if l = ''mixtape'' then mpReleaseTypes OR ReleaseTypeMixtape mp
      else if l = ''remix'' then mpReleaseTypes OR ReleaseTypeRemix mp
      else if l = ''single'' then mpReleaseTypes OR ReleaseTypeSingle mp
      else if l = ''soundtrack'' then mpReleaseTypes OR ReleaseTypeSoundtrack mp
      else if l = ''spokenword'' then mpReleaseTypes OR ReleaseTypeSpokenWord mp
      else mpReleaseTypes)"

text \<open>The loop \<open>for _, t := range releaseTypes\<close>, from the mask accumulated so far.\<close>

fun range_releaseTypes ::
  "'w::len ReleaseTypeConsts \<Rightarrow> (string \<Rightarrow> string) \<Rightarrow> string list \<Rightarrow> 'w word \<Rightarrow> 'w word" where
  "range_releaseTypes mp ToLower [] mpReleaseTypes = mpReleaseTypes"
| "range_releaseTypes mp ToLower (t # rest) mpReleaseTypes =
     range_releaseTypes mp ToLower rest
       (switch_label mp (ToLower (ReplaceAll_space t)) mpReleaseTypes)"

definition normalizeReleaseTypes ::
  "'w::len ReleaseTypeConsts \<Rightarrow> (string \<Rightarrow> string) \<Rightarrow> string list \<Rightarrow> 'w word" where
  "normalizeReleaseTypes mp ToLower releaseTypes =
     (let mpReleaseTypes = range_releaseTypes mp ToLower releaseTypes 0
      in if mpReleaseTypes = 0 then ReleaseTypeAlbum mp else mpReleaseTypes)"

text \<open>
  \<open>fillAlbum\<close> writes through the pointer \<open>album\<close>: the model returns the album with
  the assigned fields updated. \<open>subAlbum\<close> is dereferenced without a test, so it is a
  record here (the callers pass a pointer that is not nil).
\<close>

definition fillAlbum ::
  "'w::len ReleaseTypeConsts \<Rightarrow> (string \<Rightarrow> string) \<Rightarrow> AlbumID3 \<Rightarrow> 'w Album \<Rightarrow> 'w Album" where
  "fillAlbum mp ToLower subAlbum album =
     (let (artistNames, artistIDs) =
            (if length (AlbumID3.Artists subAlbum) > 0
             then range_Artists (AlbumID3.Artists subAlbum) ([], [])
             else ([] @ [AlbumID3.Artist subAlbum], [] @ [AlbumID3.ArtistID subAlbum]));
          genres =
            (if length (AlbumID3.Genres subAlbum) > 0
             then range_Genres (AlbumID3.Genres subAlbum) []
             else [] @ [AlbumID3.Genre subAlbum]);
          album = album
            \<lparr>Album.ID := AlbumID3.ID subAlbum,
             Album.CoverArtID := AlbumID3.CoverArt subAlbum,
             Album.Name := AlbumID3.Name subAlbum,
             Album.Duration := AlbumID3.Duration subAlbum,
             Album.ArtistIDs := artistIDs,
             Album.ArtistNames := artistNames,
             Album.Year := AlbumID3.Year subAlbum,
             Album.TrackCount := AlbumID3.SongCount subAlbum,
             Album.Genres := genres,
             Album.Favorite := (\<not> IsZero (AlbumID3.Starred subAlbum)),
             Album.ReleaseTypes := normalizeReleaseTypes mp ToLower (AlbumID3.ReleaseTypes subAlbum)\<rparr>
      in if AlbumID3.IsCompilation subAlbum
         then album\<lparr>Album.ReleaseTypes := Album.ReleaseTypes album OR ReleaseTypeCompilation mp\<rparr>
         else album)"

text \<open>The zero value \<open>mediaprovider.Album{}\<close>.\<close>

definition Album_zero :: "'w::len Album" where
  "Album_zero =
     \<lparr>Album.ID = [], Album.CoverArtID = [], Album.Name = [], Album.Duration = 0,
      Album.ArtistIDs = [], Album.ArtistNames = [], Album.Year = 0, Album.TrackCount = 0,
      Album.Genres = [], Album.Favorite = False, Album.ReleaseTypes = 0\<rparr>"

definition toAlbum ::
  "'w::len ReleaseTypeConsts \<Rightarrow> (string \<Rightarrow> string) \<Rightarrow> AlbumID3 option \<Rightarrow> 'w Album option" where
  "toAlbum mp ToLower al =
     (case al of
        None \<Rightarrow> None
      | Some subAlbum \<Rightarrow> Some (fillAlbum mp ToLower subAlbum Album_zero))"

definition fillPlaylist :: "subsonic_Playlist \<Rightarrow> Playlist \<Rightarrow> Playlist" where
  "fillPlaylist pl playlist =
     playlist
       \<lparr>Playlist.Name := subsonic_Playlist.Name pl,
        Playlist.ID := subsonic_Playlist.ID pl,
        Playlist.CoverArtID := subsonic_Playlist.CoverArt pl,
        Playlist.Description := subsonic_Playlist.Comment pl,
        Playlist.Owner := subsonic_Playlist.Owner pl,
        Playlist.Public := subsonic_Playlist.Public pl,
        Playlist.TrackCount := subsonic_Playlist.SongCount pl,
        Playlist.Duration := subsonic_Playlist.Duration pl\<rparr>"

text \<open>The zero value \<open>mediaprovider.Playlist{}\<close>.\<close>

definition Playlist_zero :: Playlist where
  "Playlist_zero =
     \<lparr>Playlist.Name = [], Playlist.ID = [], Playlist.CoverArtID = [],
      Playlist.Description = [], Playlist.Owner = [], Playlist.Public = False,
      Playlist.TrackCount = 0, Playlist.Duration = 0\<rparr>"

definition toPlaylist :: "subsonic_Playlist option \<Rightarrow> Playlist option" where
  "toPlaylist pl =
     (case pl of
        None \<Rightarrow> None
      | Some p \<Rightarrow> Some (fillPlaylist p Playlist_zero))"

definition toArtistFromID3 :: "ArtistID3 option \<Rightarrow> Artist option" where
  "toArtistFromID3 ar =
     (case ar of
        None \<Rightarrow> None
      | Some a \<Rightarrow>
          Some
            \<lparr>Artist.ID = ArtistID3.ID a,
             Artist.CoverArtID = ArtistID3.CoverArt a,
             Artist.Name = ArtistID3.Name a,
             Artist.Favorite = (\<not> IsZero (ArtistID3.Starred a)),
             Artist.AlbumCount = ArtistID3.AlbumCount a\<rparr>)"

text \<open>The function literal that \<open>GetGenres\<close> maps over the server's genres.\<close>

definition toGenre :: "subsonic_Genre \<Rightarrow> Genre" where
  "toGenre g =
     \<lparr>Genre.Name = subsonic_Genre.Name g,
      Genre.AlbumCount = subsonic_Genre.AlbumCount g,
      Genre.TrackCount = subsonic_Genre.SongCount g\<rparr>"

section \<open>The provider and its collaborators\<close>

text \<open>
  The provider reaches two collaborators: the client of the server's protocol
  (\<open>s.client\<close>) and the wall clock (\<open>time.Now()\<close>). Both are effects. The \<open>world\<close>
  records what the provider has done to them so far, as one trace of events, oldest
  first: a request issued to the client, or a read of the clock. \<open>app\<close> is the state of
  the application, the only thing a prefetch callback can act on.

  What the collaborators answer is given by an environment \<open>E\<close>: the client's reply to a
  request and the clock's reading (\<open>Unix\<close> in seconds, \<open>UnixMilli\<close> in milliseconds) are
  functions of the trace before the event. Every theorem holds for every environment,
  that is for every behaviour of server and clock.
\<close>

datatype error = Error string

datatype request =
    Req_GetSong string
  | Req_GetGenres
  | Req_GetPlaylists "string \<rightharpoonup> string"
  | Req_Scrobble string "string \<rightharpoonup> string"
  | Req_GetOpenSubsonicExtensions
  | Req_GetAlbum string
  | Req_GetArtist string
  | Req_GetArtistInfo2 string "string \<rightharpoonup> string"
  | Req_GetArtists "string \<rightharpoonup> string"
  | Req_GetStarred2 "string \<rightharpoonup> string"
  | Req_GetPlaylist string
  | Req_GetRandomSongs "string \<rightharpoonup> string"
  | Req_GetSimilarSongs2 string "string \<rightharpoonup> string"
  | Req_GetTopSongs string "string \<rightharpoonup> string"

datatype event = Call request | ReadClock

record 'a world =
  trace :: "event list"
  app :: 'a

text \<open>The requests of a trace, in order.\<close>

fun requests :: "event list \<Rightarrow> request list" where
  "requests [] = []"
| "requests (Call r # rest) = r # requests rest"
| "requests (ReadClock # rest) = requests rest"

text \<open>
  \<open>sharedutil.MapSlice\<close> is declared outside the files at hand. It enters the
  environment at the two types at which the cached collections use it, as whatever
  function from a slice and a function to a slice, and likewise at the types of tracks
  and artists. (At the type of albums, which depends on the width of the release type
  mask, it is a parameter of the methods that use it.)
  \<open>subsonic.TranscodeOffset\<close> is a constant of the client library.
\<close>

record env =
  Unix :: "event list \<Rightarrow> 64 word"
  UnixMilli :: "event list \<Rightarrow> 64 word"
  GetSong_reply :: "event list \<Rightarrow> string \<Rightarrow> Child option \<times> error option"
  GetGenres_reply :: "event list \<Rightarrow> subsonic_Genre list option \<times> error option"
  GetPlaylists_reply ::
    "event list \<Rightarrow> (string \<rightharpoonup> string) \<Rightarrow> subsonic_Playlist option list option \<times> error option"
  Scrobble_reply :: "event list \<Rightarrow> string \<Rightarrow> (string \<rightharpoonup> string) \<Rightarrow> error option"
  GetOpenSubsonicExtensions_reply :: "event list \<Rightarrow> OpenSubsonicExtension list \<times> error option"
  MapSlice_Genre :: "subsonic_Genre list option \<Rightarrow> (subsonic_Genre \<Rightarrow> Genre) \<Rightarrow> Genre list option"
  MapSlice_Playlist ::
    "subsonic_Playlist option list option \<Rightarrow> (subsonic_Playlist option \<Rightarrow> Playlist option)
       \<Rightarrow> Playlist option list option"
  TranscodeOffset :: string
  GetAlbum_reply :: "event list \<Rightarrow> string \<Rightarrow> AlbumID3 option \<times> error option"
  GetArtist_reply :: "event list \<Rightarrow> string \<Rightarrow> ArtistID3 option \<times> error option"
  GetArtistInfo2_reply ::
    "event list \<Rightarrow> string \<Rightarrow> (string \<rightharpoonup> string) \<Rightarrow> ArtistInfo2 option \<times> error option"
  GetArtists_reply :: "event list \<Rightarrow> (string \<rightharpoonup> string) \<Rightarrow> ArtistsID3 option \<times> error option"
  GetStarred2_reply :: "event list \<Rightarrow> (string \<rightharpoonup> string) \<Rightarrow> Starred2 option \<times> error option"
  GetPlaylist_reply :: "event list \<Rightarrow> string \<Rightarrow> subsonic_Playlist option \<times> error option"
  GetRandomSongs_reply ::
    "event list \<Rightarrow> (string \<rightharpoonup> string) \<Rightarrow> Child option list option \<times> error option"
  GetSimilarSongs2_reply ::
    "event list \<Rightarrow> string \<Rightarrow> (string \<rightharpoonup> string) \<Rightarrow> Child option list option \<times> error option"
  GetTopSongs_reply ::
    "event list \<Rightarrow> string \<Rightarrow> (string \<rightharpoonup> string) \<Rightarrow> Child option list option \<times> error option"
  MapSlice_Track ::
    "Child option list option \<Rightarrow> (Child option \<Rightarrow> Track option) \<Rightarrow> Track option list option"
  MapSlice_Artist ::
    "ArtistID3 option list option \<Rightarrow> (ArtistID3 option \<Rightarrow> Artist option)
       \<Rightarrow> Artist option list option"

text \<open>One read of the clock: \<open>time.Now().Unix()\<close> and \<open>time.Now().UnixMilli()\<close>.\<close>

definition time_Now_Unix :: "env \<Rightarrow> 'a world \<Rightarrow> 64 word \<times> 'a world" where
  "time_Now_Unix E w = (Unix E (trace w), w\<lparr>trace := trace w @ [ReadClock]\<rparr>)"

definition time_Now_UnixMilli :: "env \<Rightarrow> 'a world \<Rightarrow> 64 word \<times> 'a world" where
  "time_Now_UnixMilli E w = (UnixMilli E (trace w), w\<lparr>trace := trace w @ [ReadClock]\<rparr>)"

text \<open>The client's methods: the reply, and the world with the request recorded.\<close>

definition client_GetSong ::
  "env \<Rightarrow> string \<Rightarrow> 'a world \<Rightarrow> (Child option \<times> error option) \<times> 'a world" where
  "client_GetSong E trackID w =
     (GetSong_reply E (trace w) trackID, w\<lparr>trace := trace w @ [Call (Req_GetSong trackID)]\<rparr>)"

definition client_GetGenres ::
  "env \<Rightarrow> 'a world \<Rightarrow> (subsonic_Genre list option \<times> error option) \<times> 'a world" where
  "client_GetGenres E w = (GetGenres_reply E (trace w), w\<lparr>trace := trace w @ [Call Req_GetGenres]\<rparr>)"

definition client_GetPlaylists ::
  "env \<Rightarrow> (string \<rightharpoonup> string) \<Rightarrow> 'a world
     \<Rightarrow> (subsonic_Playlist option list option \<times> error option) \<times> 'a world" where
  "client_GetPlaylists E params w =
     (GetPlaylists_reply E (trace w) params, w\<lparr>trace := trace w @ [Call (Req_GetPlaylists params)]\<rparr>)"

definition client_Scrobble ::
  "env \<Rightarrow> string \<Rightarrow> (string \<rightharpoonup> string) \<Rightarrow> 'a world \<Rightarrow> error option \<times> 'a world" where
  "client_Scrobble E trackID params w =
     (Scrobble_reply E (trace w) trackID params,
      w\<lparr>trace := trace w @ [Call (Req_Scrobble trackID params)]\<rparr>)"

definition client_GetOpenSubsonicExtensions ::
  "env \<Rightarrow> 'a world \<Rightarrow> (OpenSubsonicExtension list \<times> error option) \<times> 'a world" where
  "client_GetOpenSubsonicExtensions E w =
     (GetOpenSubsonicExtensions_reply E (trace w),
      w\<lparr>trace := trace w @ [Call Req_GetOpenSubsonicExtensions]\<rparr>)"

text \<open>
  The struct \<open>subsonicMediaProvider\<close>. Its \<open>client\<close> field is the pointer to the client,
  which the environment and the world stand for. A callback is a function on the
  application's state; \<open>None\<close> is the nil function.
\<close>

record 'a subsonicMediaProvider =
  prefetchCoverCB :: "(string \<Rightarrow> 'a \<Rightarrow> 'a) option"
  genresCached :: "Genre list option"
  genresCachedAt :: "64 word"
  playlistsCached :: "Playlist option list option"
  playlistsCachedAt :: "64 word"

definition cacheValidDurationSeconds :: "64 word" where
  "cacheValidDurationSeconds = 60"

definition SetPrefetchCoverCallback ::
  "'a subsonicMediaProvider \<Rightarrow> (string \<Rightarrow> 'a \<Rightarrow> 'a) option \<Rightarrow> 'a subsonicMediaProvider" where
  "SetPrefetchCoverCallback s cb = s\<lparr>prefetchCoverCB := cb\<rparr>"

text \<open>
  A method of the provider takes the provider \<open>s\<close> and the world \<open>w\<close> and returns its
  Go results (a pair where Go returns a value and an error), the provider and the
  world after the call.
\<close>

definition GetTrack ::
  "env \<Rightarrow> 'a subsonicMediaProvider \<Rightarrow> 'a world \<Rightarrow> string
     \<Rightarrow> (Track option \<times> error option) \<times> 'a subsonicMediaProvider \<times> 'a world" where
  "GetTrack E s w trackID =
     (let ((tr, err), w) = client_GetSong E trackID w
      in case err of
           Some e \<Rightarrow> ((None, Some e), s, w)
         | None \<Rightarrow> ((toTrack tr, None), s, w))"

text \<open>
  \<open>GetGenres\<close>. The condition of the first \<open>if\<close> reads the clock only when
  \<open>genresCached\<close> is not nil (\<open>&&\<close> evaluates its right operand only then); the
  subtraction is \<open>int64\<close>'s and the comparison is signed.
\<close>

definition GetGenres ::
  "env \<Rightarrow> 'a subsonicMediaProvider \<Rightarrow> 'a world
     \<Rightarrow> (Genre list option \<times> error option) \<times> 'a subsonicMediaProvider \<times> 'a world" where
  "GetGenres E s w =
     (let (valid, w) =
            (case genresCached s of
               None \<Rightarrow> (False, w)
             | Some _ \<Rightarrow>
                 (let (now, w) = time_Now_Unix E w
                  in (now - genresCachedAt s <s cacheValidDurationSeconds, w)))
      in if valid then ((genresCached s, None), s, w)
         else
           (let ((g, err), w) = client_GetGenres E w
            in case err of
                 Some e \<Rightarrow> ((None, Some e), s, w)
               | None \<Rightarrow>
                   (let s = s\<lparr>genresCached := MapSlice_Genre E g toGenre\<rparr>;
                        (now, w) = time_Now_Unix E w;
                        s = s\<lparr>genresCachedAt := now\<rparr>
                    in ((genresCached s, None), s, w))))"

definition GetPlaylists ::
  "env \<Rightarrow> 'a subsonicMediaProvider \<Rightarrow> 'a world
     \<Rightarrow> (Playlist option list option \<times> error option) \<times> 'a subsonicMediaProvider \<times> 'a world" where
  "GetPlaylists E s w =
     (let (valid, w) =
            (case playlistsCached s of
               None \<Rightarrow> (False, w)
             | Some _ \<Rightarrow>
                 (let (now, w) = time_Now_Unix E w
                  in (now - playlistsCachedAt s <s cacheValidDurationSeconds, w)))
      in if valid then ((playlistsCached s, None), s, w)
         else
           (let ((pl, err), w) = client_GetPlaylists E Map.empty w
            in case err of
                 Some e \<Rightarrow> ((None, Some e), s, w)
               | None \<Rightarrow>
                   (let s = s\<lparr>playlistsCached := MapSlice_Playlist E pl toPlaylist\<rparr>;
                        (now, w) = time_Now_Unix E w;
                        s = s\<lparr>playlistsCachedAt := now\<rparr>
                    in ((playlistsCached s, None), s, w))))"

text \<open>\<open>strconv.FormatInt(i, 10)\<close>: the decimal digits of an \<open>int64\<close>, with its sign.\<close>

fun decimal :: "nat \<Rightarrow> string" where
  "decimal n =
     (if n < 10 then [''0123456789'' ! n]
      else decimal (n div 10) @ [''0123456789'' ! (n mod 10)])"

definition FormatInt_10 :: "64 word \<Rightarrow> string" where
  "FormatInt_10 i =
     (if sint i < 0 then CHR ''-'' # decimal (nat (- sint i)) else decimal (nat (sint i)))"

text \<open>\<open>TrackEndedPlayback\<close>; its second parameter, the position, is not named in the code.\<close>

definition TrackEndedPlayback ::
  "env \<Rightarrow> 'a subsonicMediaProvider \<Rightarrow> 'a world \<Rightarrow> string \<Rightarrow> int \<Rightarrow> bool
     \<Rightarrow> error option \<times> 'a subsonicMediaProvider \<times> 'a world" where
  "TrackEndedPlayback E s w trackID position submission =
     (if \<not> submission then (None, s, w)
      else
        (let (ms, w) = time_Now_UnixMilli E w;
             (err, w) = client_Scrobble E trackID
                          [''time'' \<mapsto> FormatInt_10 ms, ''submission'' \<mapsto> ''true''] w
         in (err, s, w)))"

text \<open>
  \<open>CanStreamWithOffset\<close>. The loop over the extensions returns true at the first one
  with the name \<open>subsonic.TranscodeOffset\<close>. The line that the code writes to the
  process log before the loop is not part of the model.
\<close>

fun range_extensions :: "string \<Rightarrow> OpenSubsonicExtension list \<Rightarrow> bool" where
  "range_extensions name [] = False"
| "range_extensions name (ext # rest) =
     (if OpenSubsonicExtension.Name ext = name then True else range_extensions name rest)"

definition CanStreamWithOffset ::
  "env \<Rightarrow> 'a subsonicMediaProvider \<Rightarrow> 'a world \<Rightarrow> bool \<times> 'a subsonicMediaProvider \<times> 'a world" where
  "CanStreamWithOffset E s w =
     (let ((extensions, err), w) = client_GetOpenSubsonicExtensions E w
      in case err of
           Some e \<Rightarrow> (False, s, w)
         | None \<Rightarrow> (range_extensions (TranscodeOffset E) extensions, s, w))"

subsection \<open>The other operations that translate the server's records\<close>

text \<open>
  Where a method dereferences a pointer that the client returned without testing it,
  a nil pointer makes the method panic: its outcome is \<open>Panic\<close>, with the provider and
  the world as they are at that point. \<open>Return\<close> carries the Go results.
\<close>

datatype 'r outcome = Return 'r | Panic

text \<open>\<open>strconv.Itoa\<close>: the decimal digits of an \<open>int\<close>, with its sign.\<close>

definition Itoa :: "int \<Rightarrow> string" where
  "Itoa i = (if i < 0 then CHR ''-'' # decimal (nat (- i)) else decimal (nat i))"

text \<open>Go's \<open>append(xs, x)\<close> on a slice that may be nil.\<close>

definition append_slice :: "'x list option \<Rightarrow> 'x \<Rightarrow> 'x list option" where
  "append_slice xs x = Some ((case xs of None \<Rightarrow> [] | Some l \<Rightarrow> l) @ [x])"

definition client_GetAlbum ::
  "env \<Rightarrow> string \<Rightarrow> 'a world \<Rightarrow> (AlbumID3 option \<times> error option) \<times> 'a world" where
  "client_GetAlbum E albumID w =
     (GetAlbum_reply E (trace w) albumID, w\<lparr>trace := trace w @ [Call (Req_GetAlbum albumID)]\<rparr>)"

definition client_GetArtist ::
  "env \<Rightarrow> string \<Rightarrow> 'a world \<Rightarrow> (ArtistID3 option \<times> error option) \<times> 'a world" where
  "client_GetArtist E artistID w =
     (GetArtist_reply E (trace w) artistID, w\<lparr>trace := trace w @ [Call (Req_GetArtist artistID)]\<rparr>)"

definition client_GetArtistInfo2 ::
  "env \<Rightarrow> string \<Rightarrow> (string \<rightharpoonup> string) \<Rightarrow> 'a world
     \<Rightarrow> (ArtistInfo2 option \<times> error option) \<times> 'a world" where
  "client_GetArtistInfo2 E artistID params w =
     (GetArtistInfo2_reply E (trace w) artistID params,
      w\<lparr>trace := trace w @ [Call (Req_GetArtistInfo2 artistID params)]\<rparr>)"

definition client_GetArtists ::
  "env \<Rightarrow> (string \<rightharpoonup> string) \<Rightarrow> 'a world \<Rightarrow> (ArtistsID3 option \<times> error option) \<times> 'a world" where
  "client_GetArtists E params w =
     (GetArtists_reply E (trace w) params, w\<lparr>trace := trace w @ [Call (Req_GetArtists params)]\<rparr>)"

definition client_GetStarred2 ::
  "env \<Rightarrow> (string \<rightharpoonup> string) \<Rightarrow> 'a world \<Rightarrow> (Starred2 option \<times> error option) \<times> 'a world" where
  "client_GetStarred2 E params w =
     (GetStarred2_reply E (trace w) params, w\<lparr>trace := trace w @ [Call (Req_GetStarred2 params)]\<rparr>)"

definition client_GetPlaylist ::
  "env \<Rightarrow> string \<Rightarrow> 'a world \<Rightarrow> (subsonic_Playlist option \<times> error option) \<times> 'a world" where
  "client_GetPlaylist E playlistID w =
     (GetPlaylist_reply E (trace w) playlistID,
      w\<lparr>trace := trace w @ [Call (Req_GetPlaylist playlistID)]\<rparr>)"

definition client_GetRandomSongs ::
  "env \<Rightarrow> (string \<rightharpoonup> string) \<Rightarrow> 'a world
     \<Rightarrow> (Child option list option \<times> error option) \<times> 'a world" where
  "client_GetRandomSongs E params w =
     (GetRandomSongs_reply E (trace w) params,
      w\<lparr>trace := trace w @ [Call (Req_GetRandomSongs params)]\<rparr>)"

definition client_GetSimilarSongs2 ::
  "env \<Rightarrow> string \<Rightarrow> (string \<rightharpoonup> string) \<Rightarrow> 'a world
     \<Rightarrow> (Child option list option \<times> error option) \<times> 'a world" where
  "client_GetSimilarSongs2 E artistID params w =
     (GetSimilarSongs2_reply E (trace w) artistID params,
      w\<lparr>trace := trace w @ [Call (Req_GetSimilarSongs2 artistID params)]\<rparr>)"

definition client_GetTopSongs ::
  "env \<Rightarrow> string \<Rightarrow> (string \<rightharpoonup> string) \<Rightarrow> 'a world
     \<Rightarrow> (Child option list option \<times> error option) \<times> 'a world" where
  "client_GetTopSongs E name params w =
     (GetTopSongs_reply E (trace w) name params,
      w\<lparr>trace := trace w @ [Call (Req_GetTopSongs name params)]\<rparr>)"

text \<open>
  \<open>GetAlbum\<close>. The composite literal reads \<open>al.Song\<close> first, so a nil \<open>al\<close> panics
  there; \<open>fillAlbum\<close> then fills the embedded album, which the literal left at its zero
  value.
\<close>

definition GetAlbum ::
  "'w::len ReleaseTypeConsts \<Rightarrow> (string \<Rightarrow> string) \<Rightarrow> env \<Rightarrow> 'a subsonicMediaProvider \<Rightarrow> 'a world
     \<Rightarrow> string
     \<Rightarrow> ('w AlbumWithTracks option \<times> error option) outcome \<times> 'a subsonicMediaProvider \<times> 'a world" where
  "GetAlbum mp ToLower E s w albumID =
     (let ((al, err), w) = client_GetAlbum E albumID w
      in case err of
           Some e \<Rightarrow> (Return (None, Some e), s, w)
         | None \<Rightarrow>
             (case al of
                None \<Rightarrow> (Panic, s, w)
              | Some a \<Rightarrow>
                  (let album =
                         \<lparr>AlbumWithTracks.Album = Album_zero,
                          AlbumWithTracks.Tracks = MapSlice_Track E (AlbumID3.Song a) toTrack\<rparr>;
                       album = album
                         \<lparr>AlbumWithTracks.Album := fillAlbum mp ToLower a (AlbumWithTracks.Album album)\<rparr>
                   in (Return (Some album, None), s, w))))"

text \<open>
  \<open>GetArtist\<close>. The artist of the result is built in place from four fields of the
  record; its \<open>CoverArtID\<close> is not assigned and stays empty.
\<close>

definition GetArtist ::
  "'w::len ReleaseTypeConsts \<Rightarrow> (string \<Rightarrow> string)
     \<Rightarrow> (AlbumID3 option list option \<Rightarrow> (AlbumID3 option \<Rightarrow> 'w Album option) \<Rightarrow> 'w Album option list option)
     \<Rightarrow> env \<Rightarrow> 'a subsonicMediaProvider \<Rightarrow> 'a world \<Rightarrow> string
     \<Rightarrow> ('w ArtistWithAlbums option \<times> error option) outcome \<times> 'a subsonicMediaProvider \<times> 'a world" where
  "GetArtist mp ToLower MapSlice_Album E s w artistID =
     (let ((ar, err), w) = client_GetArtist E artistID w
      in case err of
           Some e \<Rightarrow> (Return (None, Some e), s, w)
         | None \<Rightarrow>
             (case ar of
                None \<Rightarrow> (Panic, s, w)
              | Some a \<Rightarrow>
                  (Return
                     (Some
                        \<lparr>ArtistWithAlbums.Artist =
                           \<lparr>Artist.ID = ArtistID3.ID a,
                            Artist.CoverArtID = [],
                            Artist.Name = ArtistID3.Name a,
                            Artist.Favorite = (\<not> IsZero (ArtistID3.Starred a)),
                            Artist.AlbumCount = ArtistID3.AlbumCount a\<rparr>,
                         ArtistWithAlbums.Albums =
                           MapSlice_Album (ArtistID3.Album a) (toAlbum mp ToLower)\<rparr>,
                      None),
                   s, w)))"

definition GetArtistInfo ::
  "env \<Rightarrow> 'a subsonicMediaProvider \<Rightarrow> 'a world \<Rightarrow> string
     \<Rightarrow> (ArtistInfo option \<times> error option) \<times> 'a subsonicMediaProvider \<times> 'a world" where
  "GetArtistInfo E s w artistID =
     (let ((info, err), w) = client_GetArtistInfo2 E artistID Map.empty w
      in case err of
           Some e \<Rightarrow> ((None, Some e), s, w)
         | None \<Rightarrow>
             (case info of
                None \<Rightarrow> ((None, Some (Error ''server returned empty artist info'')), s, w)
              | Some i \<Rightarrow>
                  ((Some
                      \<lparr>ArtistInfo.Biography = ArtistInfo2.Biography i,
                       ArtistInfo.LastFMUrl = ArtistInfo2.LastFmUrl i,
                       ArtistInfo.ImageURL = ArtistInfo2.LargeImageUrl i,
                       ArtistInfo.SimilarArtists =
                         MapSlice_Artist E (ArtistInfo2.SimilarArtist i) toArtistFromID3\<rparr>,
                    None),
                   s, w)))"

text \<open>
  \<open>GetArtists\<close>: the inner loop appends the translation of each artist of an index;
  the outer loop runs over the indexes and panics at one that is nil (\<open>None\<close> is the
  panic).
\<close>

fun range_idx_Artist :: "ArtistID3 option list \<Rightarrow> Artist option list option \<Rightarrow> Artist option list option" where
  "range_idx_Artist [] artists = artists"
| "range_idx_Artist (ar # rest) artists =
     range_idx_Artist rest (append_slice artists (toArtistFromID3 ar))"

fun range_Index ::
  "IndexID3 option list \<Rightarrow> Artist option list option \<Rightarrow> Artist option list option option" where
  "range_Index [] artists = Some artists"
| "range_Index (None # rest) artists = None"
| "range_Index (Some idx # rest) artists =
     range_Index rest (range_idx_Artist (IndexID3.Artist idx) artists)"

definition GetArtists ::
  "env \<Rightarrow> 'a subsonicMediaProvider \<Rightarrow> 'a world
     \<Rightarrow> (Artist option list option \<times> error option) outcome \<times> 'a subsonicMediaProvider \<times> 'a world" where
  "GetArtists E s w =
     (let ((idxs, err), w) = client_GetArtists E Map.empty w
      in case err of
           Some e \<Rightarrow> (Return (None, Some e), s, w)
         | None \<Rightarrow>
             (case idxs of
                None \<Rightarrow> (Panic, s, w)
              | Some ix \<Rightarrow>
                  (case range_Index (ArtistsID3.Index ix) None of
                     None \<Rightarrow> (Panic, s, w)
                   | Some artists \<Rightarrow> (Return (artists, None), s, w))))"

text \<open>The zero value \<open>mediaprovider.Favorites{}\<close>.\<close>

definition Favorites_zero :: "'w::len Favorites" where
  "Favorites_zero = \<lparr>Favorites.Albums = None, Favorites.Artists = None, Favorites.Tracks = None\<rparr>"

definition GetFavorites ::
  "'w::len ReleaseTypeConsts \<Rightarrow> (string \<Rightarrow> string)
     \<Rightarrow> (AlbumID3 option list option \<Rightarrow> (AlbumID3 option \<Rightarrow> 'w Album option) \<Rightarrow> 'w Album option list option)
     \<Rightarrow> env \<Rightarrow> 'a subsonicMediaProvider \<Rightarrow> 'a world
     \<Rightarrow> ('w Favorites \<times> error option) outcome \<times> 'a subsonicMediaProvider \<times> 'a world" where
  "GetFavorites mp ToLower MapSlice_Album E s w =
     (let ((fav, err), w) = client_GetStarred2 E Map.empty w
      in case err of
           Some e \<Rightarrow> (Return (Favorites_zero, Some e), s, w)
         | None \<Rightarrow>
             (case fav of
                None \<Rightarrow> (Panic, s, w)
              | Some f \<Rightarrow>
                  (Return
                     (\<lparr>Favorites.Albums = MapSlice_Album (Starred2.Album f) (toAlbum mp ToLower),
                       Favorites.Artists = MapSlice_Artist E (Starred2.Artist f) toArtistFromID3,
                       Favorites.Tracks = MapSlice_Track E (Starred2.Song f) toTrack\<rparr>,
                      None),
                   s, w)))"

definition GetPlaylist ::
  "env \<Rightarrow> 'a subsonicMediaProvider \<Rightarrow> 'a world \<Rightarrow> string
     \<Rightarrow> (PlaylistWithTracks option \<times> error option) outcome \<times> 'a subsonicMediaProvider \<times> 'a world" where
  "GetPlaylist E s w playlistID =
     (let ((pl, err), w) = client_GetPlaylist E playlistID w
      in case err of
           Some e \<Rightarrow> (Return (None, Some e), s, w)
         | None \<Rightarrow>
             (case pl of
                None \<Rightarrow> (Panic, s, w)
              | Some p \<Rightarrow>
                  (let playlist =
                         \<lparr>PlaylistWithTracks.Playlist = Playlist_zero,
                          PlaylistWithTracks.Tracks = MapSlice_Track E (subsonic_Playlist.Entry p) toTrack\<rparr>;
                       playlist = playlist
                         \<lparr>PlaylistWithTracks.Playlist :=
                            fillPlaylist p (PlaylistWithTracks.Playlist playlist)\<rparr>
                   in (Return (Some playlist, None), s, w))))"

definition GetRandomTracks ::
  "env \<Rightarrow> 'a subsonicMediaProvider \<Rightarrow> 'a world \<Rightarrow> string \<Rightarrow> int
     \<Rightarrow> (Track option list option \<times> error option) \<times> 'a subsonicMediaProvider \<times> 'a world" where
  "GetRandomTracks E s w genreName count =
     (let opts = [''size'' \<mapsto> Itoa count];
          opts = (if genreName \<noteq> [] then opts(''genre'' \<mapsto> genreName) else opts);
          ((tr, err), w) = client_GetRandomSongs E opts w
      in case err of
           Some e \<Rightarrow> ((None, Some e), s, w)
         | None \<Rightarrow> ((MapSlice_Track E tr toTrack, None), s, w))"

definition GetSimilarTracks ::
  "env \<Rightarrow> 'a subsonicMediaProvider \<Rightarrow> 'a world \<Rightarrow> string \<Rightarrow> int
     \<Rightarrow> (Track option list option \<times> error option) \<times> 'a subsonicMediaProvider \<times> 'a world" where
  "GetSimilarTracks E s w artistID count =
     (let ((tr, err), w) = client_GetSimilarSongs2 E artistID [''count'' \<mapsto> Itoa count] w
      in case err of
           Some e \<Rightarrow> ((None, Some e), s, w)
         | None \<Rightarrow> ((MapSlice_Track E tr toTrack, None), s, w))"

definition GetTopTracks ::
  "env \<Rightarrow> 'a subsonicMediaProvider \<Rightarrow> 'a world \<Rightarrow> Artist \<Rightarrow> int
     \<Rightarrow> (Track option list option \<times> error option) \<times> 'a subsonicMediaProvider \<times> 'a world" where
  "GetTopTracks E s w artist count =
     (let params = (if count > 0 then [''count'' \<mapsto> Itoa count] else Map.empty);
          ((tr, err), w) = client_GetTopSongs E (Artist.Name artist) params w
      in case err of
           Some e \<Rightarrow> ((None, Some e), s, w)
         | None \<Rightarrow> ((MapSlice_Track E tr toTrack, None), s, w))"

text \<open>
  What it means that a method has not invoked the prefetch callback, \<open>after\<close> being
  the provider and the world that the method leaves: the stored callback is the one
  stored before, and the application's state, which a method can change only by
  invoking the callback, is the one before the call.
\<close>

definition callback_not_invoked ::
  "'a subsonicMediaProvider \<Rightarrow> 'a world \<Rightarrow> 'a subsonicMediaProvider \<times> 'a world \<Rightarrow> bool" where
  "callback_not_invoked s w after =
     (prefetchCoverCB (fst after) = prefetchCoverCB s \<and> app (snd after) = app w)"

text \<open>
  The condition under which a cached collection is served: a cached value exists and
  \<open>now - cachedAt < 60\<close>, the difference being \<open>int64\<close>'s, read as a signed number.
\<close>

definition cache_valid :: "'v option \<Rightarrow> 64 word \<Rightarrow> 64 word \<Rightarrow> bool" where
  "cache_valid cached cachedAt now = (cached \<noteq> None \<and> sint (now - cachedAt) < 60)"

text \<open>
  The trace at the moment a cache's fetch is issued, \<open>t\<close> being the trace at the
  call: the condition has read the clock if and only if a cached value existed.
\<close>

definition fetch_trace :: "'v option \<Rightarrow> event list \<Rightarrow> event list" where
  "fetch_trace cached t = t @ (if cached = None then [] else [ReadClock])"

section \<open>Concrete inputs\<close>

text \<open>The records, environments and states at which the theorems below are evaluated.\<close>

text \<open>An album of the year -1, every other field at its zero value.\<close>

definition album_year_minus1 :: "32 Album" where
  "album_year_minus1 =
     \<lparr>Album.ID = [], Album.CoverArtID = [], Album.Name = [], Album.Duration = 0,
      Album.ArtistIDs = [], Album.ArtistNames = [], Album.Year = - 1, Album.TrackCount = 0,
      Album.Genres = [], Album.Favorite = False, Album.ReleaseTypes = 0\<rparr>"

definition album_favorite_1999 :: "32 Album" where
  "album_favorite_1999 =
     \<lparr>Album.ID = ''al-7'', Album.CoverArtID = ''al-7'', Album.Name = ''Seven'',
      Album.Duration = 2400, Album.ArtistIDs = [''ar-1''], Album.ArtistNames = [''First''],
      Album.Year = 1999, Album.TrackCount = 10, Album.Genres = [''Rock''],
      Album.Favorite = True, Album.ReleaseTypes = 1\<rparr>"

definition filter_both_excluded :: AlbumFilter where
  "filter_both_excluded =
     \<lparr>AlbumFilter.MinYear = 0, AlbumFilter.MaxYear = 0, AlbumFilter.Genres = [],
      AlbumFilter.ExcludeFavorited = True, AlbumFilter.ExcludeUnfavorited = True\<rparr>"

text \<open>
  A table of release type constants: the sixteen categories, in the order in which the
  code's \<open>switch\<close> names them, one bit each.
\<close>

definition release_type_bits :: "32 ReleaseTypeConsts" where
  "release_type_bits =
     \<lparr>ReleaseTypeAlbum = 1, ReleaseTypeAudiobook = 2, ReleaseTypeAudioDrama = 4,
      ReleaseTypeBroadcast = 8, ReleaseTypeCompilation = 16, ReleaseTypeDemo = 32,
      ReleaseTypeDJMix = 64, ReleaseTypeEP = 128, ReleaseTypeFieldRecording = 256,
      ReleaseTypeInterview = 512, ReleaseTypeLive = 1024, ReleaseTypeMixtape = 2048,
      ReleaseTypeRemix = 4096, ReleaseTypeSingle = 8192, ReleaseTypeSoundtrack = 16384,
      ReleaseTypeSpokenWord = 32768\<rparr>"

definition Time_zero :: Time where
  "Time_zero = \<lparr>sec = 0, nsec = 0\<rparr>"

definition AlbumID3_zero :: AlbumID3 where
  "AlbumID3_zero =
     \<lparr>AlbumID3.ID = [], AlbumID3.CoverArt = [], AlbumID3.Name = [], AlbumID3.Duration = 0,
      AlbumID3.Artists = [], AlbumID3.Artist = [], AlbumID3.ArtistID = [], AlbumID3.Year = 0,
      AlbumID3.SongCount = 0, AlbumID3.Genres = [], AlbumID3.Genre = [],
      AlbumID3.Starred = Time_zero, AlbumID3.ReleaseTypes = [], AlbumID3.IsCompilation = False,
      AlbumID3.Song = None\<rparr>"

definition Child_zero :: Child where
  "Child_zero =
     \<lparr>Child.ID = [], Child.CoverArt = [], Child.Parent = [], Child.Title = [],
      Child.Duration = 0, Child.Track = 0, Child.DiscNumber = 0, Child.Genre = [],
      Child.Artists = [], Child.Artist = [], Child.ArtistID = [], Child.Album = [],
      Child.AlbumID = [], Child.Year = 0, Child.UserRating = 0, Child.Starred = Time_zero,
      Child.PlayCount = 0, Child.Path = [], Child.Size = 0, Child.BitRate = 0,
      Child.Comment = []\<rparr>"

definition two_artists :: "ArtistRef list" where
  "two_artists =
     [\<lparr>ArtistRef.ID = ''ar-1'', ArtistRef.Name = ''First''\<rparr>,
      \<lparr>ArtistRef.ID = ''ar-2'', ArtistRef.Name = ''Second''\<rparr>]"

text \<open>A track and an album with both the legacy artist fields and the extension list.\<close>

definition Child_two_artists :: Child where
  "Child_two_artists =
     Child_zero\<lparr>Child.ID := ''tr-1'', Child.CoverArt := ''al-1'', Child.Artists := two_artists,
       Child.Artist := ''Legacy'', Child.ArtistID := ''ar-0''\<rparr>"

definition AlbumID3_two_artists :: AlbumID3 where
  "AlbumID3_two_artists =
     AlbumID3_zero\<lparr>AlbumID3.ID := ''al-1'', AlbumID3.Artists := two_artists,
       AlbumID3.Artist := ''Legacy'', AlbumID3.ArtistID := ''ar-0'',
       AlbumID3.ReleaseTypes := [''Live'', ''DJ Mix'', ''bootleg''],
       AlbumID3.IsCompilation := True\<rparr>"

text \<open>A track and an album with the legacy artist fields only.\<close>

definition Child_legacy :: Child where
  "Child_legacy =
     Child_zero\<lparr>Child.ID := ''tr-2'', Child.Artist := ''Legacy'', Child.ArtistID := ''ar-0''\<rparr>"

definition AlbumID3_legacy :: AlbumID3 where
  "AlbumID3_legacy =
     AlbumID3_zero\<lparr>AlbumID3.ID := ''al-2'', AlbumID3.Artist := ''Legacy'',
       AlbumID3.ArtistID := ''ar-0''\<rparr>"

text \<open>
  A server that answers every request, and a clock that advances by 25 seconds with
  every event of the trace. \<open>MapSlice\<close> maps a nil slice to nil here. Every record
  that the server sends carries a cover art ID.
\<close>

definition genre_rock :: subsonic_Genre where
  "genre_rock =
     \<lparr>subsonic_Genre.Name = ''Rock'', subsonic_Genre.AlbumCount = 3, subsonic_Genre.SongCount = 30\<rparr>"

definition playlist_morning :: subsonic_Playlist where
  "playlist_morning =
     \<lparr>subsonic_Playlist.Name = ''Morning'', subsonic_Playlist.ID = ''pl-1'',
      subsonic_Playlist.CoverArt = ''pl-1'', subsonic_Playlist.Comment = [],
      subsonic_Playlist.Owner = ''ann'', subsonic_Playlist.Public = False,
      subsonic_Playlist.SongCount = 12, subsonic_Playlist.Duration = 2880,
      subsonic_Playlist.Entry = Some [Some Child_two_artists]\<rparr>"

definition album_with_song :: AlbumID3 where
  "album_with_song =
     AlbumID3_two_artists\<lparr>AlbumID3.CoverArt := ''al-1'',
       AlbumID3.Song := Some [Some Child_two_artists]\<rparr>"

definition artist_first :: ArtistID3 where
  "artist_first =
     \<lparr>ArtistID3.ID = ''ar-1'', ArtistID3.CoverArt = ''ar-1'', ArtistID3.Name = ''First'',
      ArtistID3.Starred = Time_zero, ArtistID3.AlbumCount = 1,
      ArtistID3.Album = Some [Some album_with_song]\<rparr>"

definition artist_info :: ArtistInfo2 where
  "artist_info =
     \<lparr>ArtistInfo2.Biography = ''Born first.'', ArtistInfo2.LastFmUrl = [],
      ArtistInfo2.LargeImageUrl = [], ArtistInfo2.SimilarArtist = Some [Some artist_first]\<rparr>"

definition artists_index :: ArtistsID3 where
  "artists_index = \<lparr>ArtistsID3.Index = [Some \<lparr>IndexID3.Artist = [Some artist_first]\<rparr>]\<rparr>"

definition starred_all :: Starred2 where
  "starred_all =
     \<lparr>Starred2.Album = Some [Some album_with_song], Starred2.Artist = Some [Some artist_first],
      Starred2.Song = Some [Some Child_two_artists]\<rparr>"

definition extension_transcode :: OpenSubsonicExtension where
  "extension_transcode =
     \<lparr>OpenSubsonicExtension.Name = ''transcodeOffset'', OpenSubsonicExtension.Versions = [1]\<rparr>"

definition extension_lyrics :: OpenSubsonicExtension where
  "extension_lyrics =
     \<lparr>OpenSubsonicExtension.Name = ''songLyrics'', OpenSubsonicExtension.Versions = [1]\<rparr>"

definition env_up :: env where
  "env_up =
     \<lparr>Unix = (\<lambda>t. 1700000000 + 25 * of_nat (length t)),
      UnixMilli = (\<lambda>t. 1700000000000 + 25000 * of_nat (length t)),
      GetSong_reply = (\<lambda>t trackID. (Some Child_two_artists, None)),
      GetGenres_reply = (\<lambda>t. (Some [genre_rock], None)),
      GetPlaylists_reply = (\<lambda>t params. (Some [Some playlist_morning], None)),
      Scrobble_reply = (\<lambda>t trackID params. None),
      GetOpenSubsonicExtensions_reply = (\<lambda>t. ([extension_lyrics, extension_transcode], None)),
      MapSlice_Genre = (\<lambda>ts f. map_option (map f) ts),
      MapSlice_Playlist = (\<lambda>ts f. map_option (map f) ts),
      TranscodeOffset = ''transcodeOffset'',
      GetAlbum_reply = (\<lambda>t albumID. (Some album_with_song, None)),
      GetArtist_reply = (\<lambda>t artistID. (Some artist_first, None)),
      GetArtistInfo2_reply = (\<lambda>t artistID params. (Some artist_info, None)),
      GetArtists_reply = (\<lambda>t params. (Some artists_index, None)),
      GetStarred2_reply = (\<lambda>t params. (Some starred_all, None)),
      GetPlaylist_reply = (\<lambda>t playlistID. (Some playlist_morning, None)),
      GetRandomSongs_reply = (\<lambda>t params. (Some [Some Child_two_artists], None)),
      GetSimilarSongs2_reply = (\<lambda>t artistID params. (Some [Some Child_two_artists], None)),
      GetTopSongs_reply = (\<lambda>t name params. (Some [Some Child_two_artists], None)),
      MapSlice_Track = (\<lambda>ts f. map_option (map f) ts),
      MapSlice_Artist = (\<lambda>ts f. map_option (map f) ts)\<rparr>"

text \<open>The same clock, and a server that fails every request.\<close>

definition env_down :: env where
  "env_down =
     \<lparr>Unix = (\<lambda>t. 1700000000 + 25 * of_nat (length t)),
      UnixMilli = (\<lambda>t. 1700000000000 + 25000 * of_nat (length t)),
      GetSong_reply = (\<lambda>t trackID. (None, Some (Error ''connection refused''))),
      GetGenres_reply = (\<lambda>t. (None, Some (Error ''connection refused''))),
      GetPlaylists_reply = (\<lambda>t params. (None, Some (Error ''connection refused''))),
      Scrobble_reply = (\<lambda>t trackID params. Some (Error ''connection refused'')),
      GetOpenSubsonicExtensions_reply = (\<lambda>t. ([], Some (Error ''connection refused''))),
      MapSlice_Genre = (\<lambda>ts f. map_option (map f) ts),
      MapSlice_Playlist = (\<lambda>ts f. map_option (map f) ts),
      TranscodeOffset = ''transcodeOffset'',
      GetAlbum_reply = (\<lambda>t albumID. (None, Some (Error ''connection refused''))),
      GetArtist_reply = (\<lambda>t artistID. (None, Some (Error ''connection refused''))),
      GetArtistInfo2_reply = (\<lambda>t artistID params. (None, Some (Error ''connection refused''))),
      GetArtists_reply = (\<lambda>t params. (None, Some (Error ''connection refused''))),
      GetStarred2_reply = (\<lambda>t params. (None, Some (Error ''connection refused''))),
      GetPlaylist_reply = (\<lambda>t playlistID. (None, Some (Error ''connection refused''))),
      GetRandomSongs_reply = (\<lambda>t params. (None, Some (Error ''connection refused''))),
      GetSimilarSongs2_reply = (\<lambda>t artistID params. (None, Some (Error ''connection refused''))),
      GetTopSongs_reply = (\<lambda>t name params. (None, Some (Error ''connection refused''))),
      MapSlice_Track = (\<lambda>ts f. map_option (map f) ts),
      MapSlice_Artist = (\<lambda>ts f. map_option (map f) ts)\<rparr>"

text \<open>
  The provider as \<open>SubsonicMediaProvider\<close> constructs it (every field but the client at
  its zero value), and a provider whose caches were filled at second 1700000000.
\<close>

definition provider_new :: "string list subsonicMediaProvider" where
  "provider_new =
     \<lparr>prefetchCoverCB = None, genresCached = None, genresCachedAt = 0,
      playlistsCached = None, playlistsCachedAt = 0\<rparr>"

definition provider_cached :: "string list subsonicMediaProvider" where
  "provider_cached =
     \<lparr>prefetchCoverCB = None,
      genresCached = Some [toGenre genre_rock], genresCachedAt = 1700000000,
      playlistsCached = Some [toPlaylist (Some playlist_morning)], playlistsCachedAt = 1700000000\<rparr>"

text \<open>
  The application's state in the examples is the list of the cover art IDs that it was
  asked to prefetch; \<open>log_cover\<close> is the callback that appends to it.
\<close>

definition log_cover :: "string \<Rightarrow> string list \<Rightarrow> string list" where
  "log_cover coverArtID prefetched = prefetched @ [coverArtID]"

definition world_start :: "string list world" where
  "world_start = \<lparr>trace = [], app = []\<rparr>"

text \<open>A world in which three events have passed: the clock reads 1700000075.\<close>

definition world_later :: "string list world" where
  "world_later = \<lparr>trace = [ReadClock, ReadClock, ReadClock], app = []\<rparr>"

text \<open>The provider with the logging callback stored.\<close>

definition provider_logging :: "string list subsonicMediaProvider" where
  "provider_logging = SetPrefetchCoverCallback provider_new (Some log_cover)"

definition artist_plain :: Artist where
  "artist_plain =
     \<lparr>Artist.ID = ''ar-1'', Artist.CoverArtID = ''ar-1'', Artist.Name = ''First'',
      Artist.Favorite = False, Artist.AlbumCount = 1\<rparr>"

text \<open>\<open>MapSlice\<close> at the type of albums, mapping a nil slice to nil.\<close>

definition MapSlice_Album_nil ::
  "AlbumID3 option list option \<Rightarrow> (AlbumID3 option \<Rightarrow> 32 Album option) \<Rightarrow> 32 Album option list option" where
  "MapSlice_Album_nil ts f = map_option (map f) ts"

section \<open>The album filter\<close>

lemma IsNil_AlbumFilter_zero: "IsNil AlbumFilter_zero"
  by (simp add: IsNil_def AlbumFilter_zero_def)

text \<open>The nil filter matches exactly the albums whose year is not negative.\<close>

lemma Matches_zero_filter_iff:
  "Matches EqualFold AlbumFilter_zero (Some a) \<longleftrightarrow> 0 \<le> Album.Year a"
  by (auto simp add: Matches_def AlbumFilter_zero_def)

text \<open>
  Claim C8. The zero-value filter satisfies \<open>IsNil\<close>, which the code documents as
  "matches everything"; yet \<open>Matches\<close> compares the album's year with \<open>MinYear = 0\<close>
  without the "0 means unset" guard that \<open>MaxYear\<close> has, so an album whose year is
  negative is rejected by the nil filter. The theorem evaluates the code at such an album.
\<close>

theorem C8_nil_filter_rejects_negative_year:
  "IsNil AlbumFilter_zero \<and> \<not> Matches ascii_EqualFold AlbumFilter_zero (Some album_year_minus1)"
  by (simp add: IsNil_def Matches_def AlbumFilter_zero_def album_year_minus1_def)

text \<open>
  Claim C10. A filter with both \<open>ExcludeFavorited\<close> and \<open>ExcludeUnfavorited\<close> set
  matches no album: the nil pointer is rejected first, a favourited album by the first
  exclusion test and any other album by the second.
\<close>

theorem C10_both_exclusions_match_nothing:
  assumes "AlbumFilter.ExcludeFavorited f" and "AlbumFilter.ExcludeUnfavorited f"
  shows "\<not> Matches EqualFold f album"
proof (cases album)
  case None
  then show ?thesis by (simp add: Matches_def)
next
  case (Some a)
  show ?thesis
  proof (cases "Album.Favorite a")
    case True
    with Some assms(1) show ?thesis by (simp add: Matches_def)
  next
    case False
    with Some assms(2) show ?thesis by (simp add: Matches_def)
  qed
qed

theorem C10_both_exclusions_witness:
  "AlbumFilter.ExcludeFavorited filter_both_excluded \<and>
   AlbumFilter.ExcludeUnfavorited filter_both_excluded \<and>
   \<not> Matches ascii_EqualFold filter_both_excluded (Some album_favorite_1999) \<and>
   \<not> Matches ascii_EqualFold filter_both_excluded (Some album_year_minus1) \<and>
   \<not> Matches ascii_EqualFold filter_both_excluded (None :: 32 Album option)"
  using C10_both_exclusions_match_nothing [of filter_both_excluded ascii_EqualFold "Some album_favorite_1999"]
    C10_both_exclusions_match_nothing [of filter_both_excluded ascii_EqualFold "Some album_year_minus1"]
    C10_both_exclusions_match_nothing [of filter_both_excluded ascii_EqualFold "None :: 32 Album option"]
  by (simp add: filter_both_excluded_def)

section \<open>The entity translator\<close>

lemma range_Artists_eq:
  "range_Artists as (artistNames, artistIDs) =
     (artistNames @ map ArtistRef.Name as, artistIDs @ map ArtistRef.ID as)"
  by (induction as arbitrary: artistNames artistIDs) simp_all

lemma range_Genres_eq: "range_Genres gs genres = genres @ map ItemGenre.Name gs"
  by (induction gs arbitrary: genres) simp_all

lemma toTrack_Some:
  "toTrack (Some c) = Some t \<Longrightarrow>
     Track.ArtistIDs t =
       (if Child.Artists c \<noteq> [] then map ArtistRef.ID (Child.Artists c) else [Child.ArtistID c]) \<and>
     Track.ArtistNames t =
       (if Child.Artists c \<noteq> [] then map ArtistRef.Name (Child.Artists c) else [Child.Artist c]) \<and>
     Track.CoverArtID t = Child.CoverArt c"
  by (auto simp add: toTrack_def range_Artists_eq)

lemma toTrack_total: "\<exists>t. toTrack (Some c) = Some t"
  by (simp add: toTrack_def split: prod.split)

lemma ArtistIDs_fillAlbum:
  "Album.ArtistIDs (fillAlbum mp ToLower subAlbum album) =
     (if AlbumID3.Artists subAlbum \<noteq> [] then map ArtistRef.ID (AlbumID3.Artists subAlbum)
      else [AlbumID3.ArtistID subAlbum])"
  by (simp add: fillAlbum_def range_Artists_eq Let_def)

lemma ArtistNames_fillAlbum:
  "Album.ArtistNames (fillAlbum mp ToLower subAlbum album) =
     (if AlbumID3.Artists subAlbum \<noteq> [] then map ArtistRef.Name (AlbumID3.Artists subAlbum)
      else [AlbumID3.Artist subAlbum])"
  by (simp add: fillAlbum_def range_Artists_eq Let_def)

text \<open>
  Claim C2. A track or album record with a non-empty \<open>Artists\<close> extension list is
  translated to the IDs and the names of that list, in its order, whatever the legacy
  fields \<open>ArtistID\<close> and \<open>Artist\<close> hold; a record whose list is empty is translated to
  the one-element lists of its legacy fields. (\<open>toTrack\<close> of a record that is not nil
  always returns a track.)
\<close>

theorem C2_artist_lists:
  "(Child.Artists ch \<noteq> [] \<longrightarrow>
      map_option Track.ArtistIDs (toTrack (Some ch)) = Some (map ArtistRef.ID (Child.Artists ch)) \<and>
      map_option Track.ArtistNames (toTrack (Some ch)) = Some (map ArtistRef.Name (Child.Artists ch))) \<and>
   (Child.Artists ch = [] \<longrightarrow>
      map_option Track.ArtistIDs (toTrack (Some ch)) = Some [Child.ArtistID ch] \<and>
      map_option Track.ArtistNames (toTrack (Some ch)) = Some [Child.Artist ch]) \<and>
   (AlbumID3.Artists subAlbum \<noteq> [] \<longrightarrow>
      Album.ArtistIDs (fillAlbum mp ToLower subAlbum album) = map ArtistRef.ID (AlbumID3.Artists subAlbum) \<and>
      Album.ArtistNames (fillAlbum mp ToLower subAlbum album) = map ArtistRef.Name (AlbumID3.Artists subAlbum)) \<and>
   (AlbumID3.Artists subAlbum = [] \<longrightarrow>
      Album.ArtistIDs (fillAlbum mp ToLower subAlbum album) = [AlbumID3.ArtistID subAlbum] \<and>
      Album.ArtistNames (fillAlbum mp ToLower subAlbum album) = [AlbumID3.Artist subAlbum])"
proof -
  obtain t where t: "toTrack (Some ch) = Some t"
    using toTrack_total by blast
  note tr = toTrack_Some [OF t]
  show ?thesis
    using tr by (simp add: t ArtistIDs_fillAlbum ArtistNames_fillAlbum)
qed

theorem C2_artist_lists_witness:
  "Child.Artists Child_two_artists \<noteq> [] \<and> Child.ArtistID Child_two_artists = ''ar-0'' \<and>
   map_option Track.ArtistIDs (toTrack (Some Child_two_artists)) = Some [''ar-1'', ''ar-2''] \<and>
   map_option Track.ArtistNames (toTrack (Some Child_two_artists)) = Some [''First'', ''Second''] \<and>
   AlbumID3.Artists AlbumID3_two_artists \<noteq> [] \<and>
   Album.ArtistIDs (fillAlbum release_type_bits ascii_ToLower AlbumID3_two_artists Album_zero)
     = [''ar-1'', ''ar-2''] \<and>
   Album.ArtistNames (fillAlbum release_type_bits ascii_ToLower AlbumID3_two_artists Album_zero)
     = [''First'', ''Second''] \<and>
   Child.Artists Child_legacy = [] \<and>
   map_option Track.ArtistIDs (toTrack (Some Child_legacy)) = Some [''ar-0''] \<and>
   map_option Track.ArtistNames (toTrack (Some Child_legacy)) = Some [''Legacy''] \<and>
   AlbumID3.Artists AlbumID3_legacy = [] \<and>
   Album.ArtistIDs (fillAlbum release_type_bits ascii_ToLower AlbumID3_legacy Album_zero) = [''ar-0''] \<and>
   Album.ArtistNames (fillAlbum release_type_bits ascii_ToLower AlbumID3_legacy Album_zero) = [''Legacy'']"
  using C2_artist_lists [of Child_two_artists AlbumID3_two_artists release_type_bits ascii_ToLower Album_zero]
    C2_artist_lists [of Child_legacy AlbumID3_legacy release_type_bits ascii_ToLower Album_zero]
  by (simp add: Child_two_artists_def Child_legacy_def Child_zero_def two_artists_def
      AlbumID3_two_artists_def AlbumID3_legacy_def AlbumID3_zero_def)

subsection \<open>The release type classifier\<close>

lemma normalizeReleaseTypes_nonzero:
  "ReleaseTypeAlbum mp \<noteq> 0 \<Longrightarrow> normalizeReleaseTypes mp ToLower releaseTypes \<noteq> 0"
  by (simp add: normalizeReleaseTypes_def Let_def)

lemma normalizeReleaseTypes_Nil: "normalizeReleaseTypes mp ToLower [] = ReleaseTypeAlbum mp"
  by (simp add: normalizeReleaseTypes_def)

text \<open>Were the album constant zero, an album without labels would have no release type.\<close>

lemma normalizeReleaseTypes_Nil_zero:
  "ReleaseTypeAlbum mp = 0 \<Longrightarrow> normalizeReleaseTypes mp ToLower [] = 0"
  by (simp add: normalizeReleaseTypes_def)

lemma ReleaseTypes_fillAlbum:
  "Album.ReleaseTypes (fillAlbum mp ToLower subAlbum album) =
     (if AlbumID3.IsCompilation subAlbum
      then normalizeReleaseTypes mp ToLower (AlbumID3.ReleaseTypes subAlbum) OR ReleaseTypeCompilation mp
      else normalizeReleaseTypes mp ToLower (AlbumID3.ReleaseTypes subAlbum))"
  by (simp add: fillAlbum_def Let_def split: prod.split)

text \<open>
  Claim C1. The release types that \<open>fillAlbum\<close> stores (\<open>normalizeReleaseTypes\<close> of the
  record's labels, with the compilation bit added when the record is a compilation)
  are never zero, for every list of labels and every compilation flag; and they are
  exactly the album bit when the list is empty and the flag is false. The constants
  are declared outside the files at hand: that \<open>ReleaseTypeAlbum\<close> is a bit, not zero,
  is the one fact about them that the claim needs.
\<close>

theorem C1_release_types_never_zero:
  assumes "ReleaseTypeAlbum mp \<noteq> 0"
  shows "Album.ReleaseTypes (fillAlbum mp ToLower subAlbum album) \<noteq> 0 \<and>
         (AlbumID3.ReleaseTypes subAlbum = [] \<and> \<not> AlbumID3.IsCompilation subAlbum \<longrightarrow>
            Album.ReleaseTypes (fillAlbum mp ToLower subAlbum album) = ReleaseTypeAlbum mp)"
proof
  have nz: "normalizeReleaseTypes mp ToLower (AlbumID3.ReleaseTypes subAlbum) \<noteq> 0"
    using assms by (rule normalizeReleaseTypes_nonzero)
  show "Album.ReleaseTypes (fillAlbum mp ToLower subAlbum album) \<noteq> 0"
    using nz by (simp add: ReleaseTypes_fillAlbum or_eq_0_iff)
  show "AlbumID3.ReleaseTypes subAlbum = [] \<and> \<not> AlbumID3.IsCompilation subAlbum \<longrightarrow>
          Album.ReleaseTypes (fillAlbum mp ToLower subAlbum album) = ReleaseTypeAlbum mp"
    by (simp add: ReleaseTypes_fillAlbum normalizeReleaseTypes_Nil)
qed

text \<open>The labels "Live", "DJ Mix" and "bootleg" of a compilation: live, DJ mix and compilation.\<close>

lemma fillAlbum_two_artists_ReleaseTypes:
  "Album.ReleaseTypes (fillAlbum release_type_bits ascii_ToLower AlbumID3_two_artists Album_zero)
     = 1024 OR 64 OR 16"
  by code_simp

theorem C1_release_types_witness:
  "ReleaseTypeAlbum release_type_bits \<noteq> 0 \<and>
   AlbumID3.ReleaseTypes AlbumID3_zero = [] \<and> \<not> AlbumID3.IsCompilation AlbumID3_zero \<and>
   Album.ReleaseTypes (fillAlbum release_type_bits ascii_ToLower AlbumID3_zero Album_zero) = 1 \<and>
   Album.ReleaseTypes (fillAlbum release_type_bits ascii_ToLower AlbumID3_two_artists Album_zero) \<noteq> 0"
  using C1_release_types_never_zero [of release_type_bits ascii_ToLower AlbumID3_zero Album_zero]
    C1_release_types_never_zero [of release_type_bits ascii_ToLower AlbumID3_two_artists Album_zero]
  by (simp add: release_type_bits_def AlbumID3_zero_def)

section \<open>The cached collections\<close>

lemma sless_cacheValidDurationSeconds: "(a <s cacheValidDurationSeconds) = (sint a < 60)"
  by (simp add: cacheValidDurationSeconds_def word_sless_alt)

text \<open>
  The \<open>int64\<close> difference is the difference of the two timestamps whenever that fits
  into an \<open>int64\<close>, as it does for any two readings of a wall clock.
\<close>

lemma sint_timestamp_difference:
  fixes now cachedAt :: "64 word"
  assumes "- (2 ^ 63) \<le> sint now - sint cachedAt" and "sint now - sint cachedAt < 2 ^ 63"
  shows "sint (now - cachedAt) = sint now - sint cachedAt"
  using assms by (simp add: sint_word_ariths signed_take_bit_int_eq_self)

lemma requests_append: "requests (t @ u) = requests t @ requests u"
  by (induction t rule: requests.induct) simp_all

lemma GetGenres_valid:
  assumes "cache_valid (genresCached s) (genresCachedAt s) (Unix E (trace w))"
  shows "GetGenres E s w = ((genresCached s, None), s, w\<lparr>trace := trace w @ [ReadClock]\<rparr>)"
  using assms
  by (auto simp add: GetGenres_def cache_valid_def time_Now_Unix_def
      sless_cacheValidDurationSeconds)

lemma GetGenres_fetch:
  assumes "\<not> cache_valid (genresCached s) (genresCachedAt s) (Unix E (trace w))"
    and "t0 = fetch_trace (genresCached s) (trace w)"
  shows "GetGenres E s w =
     (case snd (GetGenres_reply E t0) of
        Some e \<Rightarrow> ((None, Some e), s, w\<lparr>trace := t0 @ [Call Req_GetGenres]\<rparr>)
      | None \<Rightarrow>
          ((MapSlice_Genre E (fst (GetGenres_reply E t0)) toGenre, None),
           s\<lparr>genresCached := MapSlice_Genre E (fst (GetGenres_reply E t0)) toGenre,
             genresCachedAt := Unix E (t0 @ [Call Req_GetGenres])\<rparr>,
           w\<lparr>trace := t0 @ [Call Req_GetGenres, ReadClock]\<rparr>))"
  using assms
  by (auto simp add: GetGenres_def cache_valid_def fetch_trace_def time_Now_Unix_def
      client_GetGenres_def sless_cacheValidDurationSeconds
      split: prod.splits option.splits)

lemma GetPlaylists_valid:
  assumes "cache_valid (playlistsCached s) (playlistsCachedAt s) (Unix E (trace w))"
  shows "GetPlaylists E s w = ((playlistsCached s, None), s, w\<lparr>trace := trace w @ [ReadClock]\<rparr>)"
  using assms
  by (auto simp add: GetPlaylists_def cache_valid_def time_Now_Unix_def
      sless_cacheValidDurationSeconds)

lemma GetPlaylists_fetch:
  assumes "\<not> cache_valid (playlistsCached s) (playlistsCachedAt s) (Unix E (trace w))"
    and "t0 = fetch_trace (playlistsCached s) (trace w)"
  shows "GetPlaylists E s w =
     (case snd (GetPlaylists_reply E t0 Map.empty) of
        Some e \<Rightarrow> ((None, Some e), s, w\<lparr>trace := t0 @ [Call (Req_GetPlaylists Map.empty)]\<rparr>)
      | None \<Rightarrow>
          ((MapSlice_Playlist E (fst (GetPlaylists_reply E t0 Map.empty)) toPlaylist, None),
           s\<lparr>playlistsCached := MapSlice_Playlist E (fst (GetPlaylists_reply E t0 Map.empty)) toPlaylist,
             playlistsCachedAt := Unix E (t0 @ [Call (Req_GetPlaylists Map.empty)])\<rparr>,
           w\<lparr>trace := t0 @ [Call (Req_GetPlaylists Map.empty), ReadClock]\<rparr>))"
  using assms
  by (auto simp add: GetPlaylists_def cache_valid_def fetch_trace_def time_Now_Unix_def
      client_GetPlaylists_def sless_cacheValidDurationSeconds
      split: prod.splits option.splits)

lemma requests_fetch_trace: "requests (fetch_trace cached t) = requests t"
  by (simp add: fetch_trace_def requests_append)

lemma GetGenres_fetch_requests:
  assumes "\<not> cache_valid (genresCached s) (genresCachedAt s) (Unix E (trace w))"
  shows "requests (trace (snd (snd (GetGenres E s w)))) = requests (trace w) @ [Req_GetGenres]"
  by (simp add: GetGenres_fetch [OF assms refl] requests_append requests_fetch_trace
      split: option.split)

lemma GetPlaylists_fetch_requests:
  assumes "\<not> cache_valid (playlistsCached s) (playlistsCachedAt s) (Unix E (trace w))"
  shows "requests (trace (snd (snd (GetPlaylists E s w)))) =
           requests (trace w) @ [Req_GetPlaylists Map.empty]"
  by (simp add: GetPlaylists_fetch [OF assms refl] requests_append requests_fetch_trace
      split: option.split)

text \<open>
  Claim C4. A call of \<open>GetGenres\<close> (of \<open>GetPlaylists\<close>) made when a cached value exists
  and \<open>now - cachedAt < 60\<close>, \<open>now\<close> being the clock's reading at the call, returns the
  cached value with a nil error, leaves the provider as it is and issues no request: the
  clock read is the only event. Any other call issues exactly one request, the fetch;
  when the fetch succeeds, the call stores the fresh collection and, as the timestamp,
  the reading that the clock gives after the fetch has returned, and it returns the
  fresh collection with a nil error.
\<close>

theorem C4_ttl_cache:
  "(cache_valid (genresCached s) (genresCachedAt s) (Unix E (trace w)) \<longrightarrow>
      GetGenres E s w = ((genresCached s, None), s, w\<lparr>trace := trace w @ [ReadClock]\<rparr>)) \<and>
   (\<not> cache_valid (genresCached s) (genresCachedAt s) (Unix E (trace w)) \<longrightarrow>
      requests (trace (snd (snd (GetGenres E s w)))) = requests (trace w) @ [Req_GetGenres] \<and>
      (snd (GetGenres_reply E (fetch_trace (genresCached s) (trace w))) = None \<longrightarrow>
         GetGenres E s w =
           ((MapSlice_Genre E
               (fst (GetGenres_reply E (fetch_trace (genresCached s) (trace w)))) toGenre, None),
            s\<lparr>genresCached :=
                 MapSlice_Genre E
                   (fst (GetGenres_reply E (fetch_trace (genresCached s) (trace w)))) toGenre,
              genresCachedAt :=
                 Unix E (fetch_trace (genresCached s) (trace w) @ [Call Req_GetGenres])\<rparr>,
            w\<lparr>trace := fetch_trace (genresCached s) (trace w) @ [Call Req_GetGenres, ReadClock]\<rparr>))) \<and>
   (cache_valid (playlistsCached s) (playlistsCachedAt s) (Unix E (trace w)) \<longrightarrow>
      GetPlaylists E s w = ((playlistsCached s, None), s, w\<lparr>trace := trace w @ [ReadClock]\<rparr>)) \<and>
   (\<not> cache_valid (playlistsCached s) (playlistsCachedAt s) (Unix E (trace w)) \<longrightarrow>
      requests (trace (snd (snd (GetPlaylists E s w)))) =
        requests (trace w) @ [Req_GetPlaylists Map.empty] \<and>
      (snd (GetPlaylists_reply E (fetch_trace (playlistsCached s) (trace w)) Map.empty) = None \<longrightarrow>
         GetPlaylists E s w =
           ((MapSlice_Playlist E
               (fst (GetPlaylists_reply E (fetch_trace (playlistsCached s) (trace w)) Map.empty))
               toPlaylist, None),
            s\<lparr>playlistsCached :=
                 MapSlice_Playlist E
                   (fst (GetPlaylists_reply E (fetch_trace (playlistsCached s) (trace w)) Map.empty))
                   toPlaylist,
              playlistsCachedAt :=
                 Unix E (fetch_trace (playlistsCached s) (trace w) @ [Call (Req_GetPlaylists Map.empty)])\<rparr>,
            w\<lparr>trace := fetch_trace (playlistsCached s) (trace w)
                          @ [Call (Req_GetPlaylists Map.empty), ReadClock]\<rparr>)))"
proof (intro conjI impI)
  assume "cache_valid (genresCached s) (genresCachedAt s) (Unix E (trace w))"
  then show "GetGenres E s w = ((genresCached s, None), s, w\<lparr>trace := trace w @ [ReadClock]\<rparr>)"
    by (rule GetGenres_valid)
next
  assume "\<not> cache_valid (genresCached s) (genresCachedAt s) (Unix E (trace w))"
  then show "requests (trace (snd (snd (GetGenres E s w)))) = requests (trace w) @ [Req_GetGenres]"
    by (rule GetGenres_fetch_requests)
next
  assume miss: "\<not> cache_valid (genresCached s) (genresCachedAt s) (Unix E (trace w))"
    and ok: "snd (GetGenres_reply E (fetch_trace (genresCached s) (trace w))) = None"
  show "GetGenres E s w =
      ((MapSlice_Genre E
          (fst (GetGenres_reply E (fetch_trace (genresCached s) (trace w)))) toGenre, None),
       s\<lparr>genresCached :=
            MapSlice_Genre E
              (fst (GetGenres_reply E (fetch_trace (genresCached s) (trace w)))) toGenre,
         genresCachedAt :=
            Unix E (fetch_trace (genresCached s) (trace w) @ [Call Req_GetGenres])\<rparr>,
       w\<lparr>trace := fetch_trace (genresCached s) (trace w) @ [Call Req_GetGenres, ReadClock]\<rparr>)"
    by (simp add: GetGenres_fetch [OF miss refl] ok)
next
  assume "cache_valid (playlistsCached s) (playlistsCachedAt s) (Unix E (trace w))"
  then show "GetPlaylists E s w = ((playlistsCached s, None), s, w\<lparr>trace := trace w @ [ReadClock]\<rparr>)"
    by (rule GetPlaylists_valid)
next
  assume "\<not> cache_valid (playlistsCached s) (playlistsCachedAt s) (Unix E (trace w))"
  then show "requests (trace (snd (snd (GetPlaylists E s w)))) =
      requests (trace w) @ [Req_GetPlaylists Map.empty]"
    by (rule GetPlaylists_fetch_requests)
next
  assume miss: "\<not> cache_valid (playlistsCached s) (playlistsCachedAt s) (Unix E (trace w))"
    and ok: "snd (GetPlaylists_reply E (fetch_trace (playlistsCached s) (trace w)) Map.empty) = None"
  show "GetPlaylists E s w =
      ((MapSlice_Playlist E
          (fst (GetPlaylists_reply E (fetch_trace (playlistsCached s) (trace w)) Map.empty))
          toPlaylist, None),
       s\<lparr>playlistsCached :=
            MapSlice_Playlist E
              (fst (GetPlaylists_reply E (fetch_trace (playlistsCached s) (trace w)) Map.empty))
              toPlaylist,
         playlistsCachedAt :=
            Unix E (fetch_trace (playlistsCached s) (trace w) @ [Call (Req_GetPlaylists Map.empty)])\<rparr>,
       w\<lparr>trace := fetch_trace (playlistsCached s) (trace w)
                     @ [Call (Req_GetPlaylists Map.empty), ReadClock]\<rparr>)"
    by (simp add: GetPlaylists_fetch [OF miss refl] ok)
qed

theorem C4_ttl_cache_witness:
  "cache_valid (genresCached provider_cached) (genresCachedAt provider_cached)
     (Unix env_up (trace world_start)) \<and>
   GetGenres env_up provider_cached world_start =
     ((Some [toGenre genre_rock], None), provider_cached, world_start\<lparr>trace := [ReadClock]\<rparr>) \<and>
   \<not> cache_valid (genresCached provider_cached) (genresCachedAt provider_cached)
     (Unix env_up (trace world_later)) \<and>
   GetGenres env_up provider_cached world_later =
     ((Some [toGenre genre_rock], None),
      provider_cached\<lparr>genresCachedAt := 1700000125\<rparr>,
      world_later\<lparr>trace := [ReadClock, ReadClock, ReadClock, ReadClock, Call Req_GetGenres, ReadClock]\<rparr>) \<and>
   \<not> cache_valid (playlistsCached provider_new) (playlistsCachedAt provider_new)
     (Unix env_up (trace world_start)) \<and>
   GetPlaylists env_up provider_new world_start =
     ((Some [toPlaylist (Some playlist_morning)], None),
      provider_new\<lparr>playlistsCached := Some [toPlaylist (Some playlist_morning)],
        playlistsCachedAt := 1700000025\<rparr>,
      world_start\<lparr>trace := [Call (Req_GetPlaylists Map.empty), ReadClock]\<rparr>) \<and>
   cache_valid (playlistsCached provider_cached) (playlistsCachedAt provider_cached)
     (Unix env_up (trace world_start)) \<and>
   GetPlaylists env_up provider_cached world_start =
     ((Some [toPlaylist (Some playlist_morning)], None), provider_cached,
      world_start\<lparr>trace := [ReadClock]\<rparr>)"
  using C4_ttl_cache [of provider_cached env_up world_start]
    C4_ttl_cache [of provider_cached env_up world_later]
    C4_ttl_cache [of provider_new env_up world_start]
  by (simp add: cache_valid_def fetch_trace_def env_up_def provider_cached_def provider_new_def
      world_start_def world_later_def)

text \<open>
  Claim C5. When the fetch inside \<open>GetGenres\<close> (inside \<open>GetPlaylists\<close>) fails with the
  error \<open>e\<close>, the call returns a nil collection together with \<open>e\<close> itself, and the
  provider is the one before the call: cached value and timestamp are untouched, and
  the cached value, stale or not, is not what the caller gets.
\<close>

theorem C5_fetch_failure:
  "(\<not> cache_valid (genresCached s) (genresCachedAt s) (Unix E (trace w)) \<and>
    snd (GetGenres_reply E (fetch_trace (genresCached s) (trace w))) = Some e \<longrightarrow>
      GetGenres E s w =
        ((None, Some e), s,
         w\<lparr>trace := fetch_trace (genresCached s) (trace w) @ [Call Req_GetGenres]\<rparr>)) \<and>
   (\<not> cache_valid (playlistsCached s) (playlistsCachedAt s) (Unix E (trace w)) \<and>
    snd (GetPlaylists_reply E (fetch_trace (playlistsCached s) (trace w)) Map.empty) = Some e \<longrightarrow>
      GetPlaylists E s w =
        ((None, Some e), s,
         w\<lparr>trace := fetch_trace (playlistsCached s) (trace w)
                       @ [Call (Req_GetPlaylists Map.empty)]\<rparr>))"
proof (intro conjI impI)
  assume a: "\<not> cache_valid (genresCached s) (genresCachedAt s) (Unix E (trace w)) \<and>
    snd (GetGenres_reply E (fetch_trace (genresCached s) (trace w))) = Some e"
  then have miss: "\<not> cache_valid (genresCached s) (genresCachedAt s) (Unix E (trace w))"
    by simp
  from a show "GetGenres E s w =
      ((None, Some e), s, w\<lparr>trace := fetch_trace (genresCached s) (trace w) @ [Call Req_GetGenres]\<rparr>)"
    by (simp add: GetGenres_fetch [OF miss refl])
next
  assume a: "\<not> cache_valid (playlistsCached s) (playlistsCachedAt s) (Unix E (trace w)) \<and>
    snd (GetPlaylists_reply E (fetch_trace (playlistsCached s) (trace w)) Map.empty) = Some e"
  then have miss: "\<not> cache_valid (playlistsCached s) (playlistsCachedAt s) (Unix E (trace w))"
    by simp
  from a show "GetPlaylists E s w =
      ((None, Some e), s,
       w\<lparr>trace := fetch_trace (playlistsCached s) (trace w) @ [Call (Req_GetPlaylists Map.empty)]\<rparr>)"
    by (simp add: GetPlaylists_fetch [OF miss refl])
qed

theorem C5_fetch_failure_witness:
  "\<not> cache_valid (genresCached provider_cached) (genresCachedAt provider_cached)
     (Unix env_down (trace world_later)) \<and>
   snd (GetGenres_reply env_down (fetch_trace (genresCached provider_cached) (trace world_later)))
     = Some (Error ''connection refused'') \<and>
   GetGenres env_down provider_cached world_later =
     ((None, Some (Error ''connection refused'')), provider_cached,
      world_later\<lparr>trace := [ReadClock, ReadClock, ReadClock, ReadClock, Call Req_GetGenres]\<rparr>) \<and>
   \<not> cache_valid (playlistsCached provider_new) (playlistsCachedAt provider_new)
     (Unix env_down (trace world_start)) \<and>
   GetPlaylists env_down provider_new world_start =
     ((None, Some (Error ''connection refused'')), provider_new,
      world_start\<lparr>trace := [Call (Req_GetPlaylists Map.empty)]\<rparr>)"
  using C5_fetch_failure [of provider_cached env_down world_later "Error ''connection refused''"]
    C5_fetch_failure [of provider_new env_down world_start "Error ''connection refused''"]
  by (simp add: cache_valid_def fetch_trace_def env_down_def provider_cached_def provider_new_def
      world_start_def world_later_def)

section \<open>Capability detection\<close>

lemma range_extensions_iff:
  "range_extensions name extensions \<longleftrightarrow>
     (\<exists>ext \<in> set extensions. OpenSubsonicExtension.Name ext = name)"
  by (induction extensions) auto

text \<open>
  Claim C6. \<open>CanStreamWithOffset\<close> returns true exactly when the query for the
  server's extensions returns no error and one of the returned extensions has the name
  \<open>subsonic.TranscodeOffset\<close>; when the query returns an error the result is false.
  The method returns a boolean and nothing else, so no error reaches the caller; it
  issues the one query and leaves the provider as it is.
\<close>

theorem C6_can_stream_with_offset:
  "fst (CanStreamWithOffset E s w) =
     (snd (GetOpenSubsonicExtensions_reply E (trace w)) = None \<and>
      (\<exists>ext \<in> set (fst (GetOpenSubsonicExtensions_reply E (trace w))).
          OpenSubsonicExtension.Name ext = TranscodeOffset E)) \<and>
   (snd (GetOpenSubsonicExtensions_reply E (trace w)) \<noteq> None \<longrightarrow>
      \<not> fst (CanStreamWithOffset E s w)) \<and>
   snd (CanStreamWithOffset E s w) =
     (s, w\<lparr>trace := trace w @ [Call Req_GetOpenSubsonicExtensions]\<rparr>)"
  by (auto simp add: CanStreamWithOffset_def client_GetOpenSubsonicExtensions_def
      range_extensions_iff split: prod.splits option.splits)

theorem C6_can_stream_with_offset_witness:
  "snd (GetOpenSubsonicExtensions_reply env_up (trace world_start)) = None \<and>
   fst (CanStreamWithOffset env_up provider_new world_start) \<and>
   snd (GetOpenSubsonicExtensions_reply env_down (trace world_start)) \<noteq> None \<and>
   \<not> fst (CanStreamWithOffset env_down provider_new world_start) \<and>
   snd (CanStreamWithOffset env_down provider_new world_start) =
     (provider_new, world_start\<lparr>trace := [Call Req_GetOpenSubsonicExtensions]\<rparr>)"
  using C6_can_stream_with_offset [of env_up provider_new world_start]
    C6_can_stream_with_offset [of env_down provider_new world_start]
  by (simp add: env_up_def env_down_def world_start_def extension_transcode_def
      extension_lyrics_def)

section \<open>Playback reporting\<close>

text \<open>
  Claim C7. With \<open>submission\<close> false, \<open>TrackEndedPlayback\<close> returns a nil error and
  leaves the world as it is: no request is issued, the clock is not read. With
  \<open>submission\<close> true it reads the clock and issues exactly one request, a scrobble of
  the track whose parameter \<open>submission\<close> is "true", and returns the client's answer.
\<close>

theorem C7_track_ended_playback:
  "TrackEndedPlayback E s w trackID position False = (None, s, w) \<and>
   TrackEndedPlayback E s w trackID position True =
     (Scrobble_reply E (trace w @ [ReadClock]) trackID
        [''time'' \<mapsto> FormatInt_10 (UnixMilli E (trace w)), ''submission'' \<mapsto> ''true''],
      s,
      w\<lparr>trace := trace w @
          [ReadClock,
           Call (Req_Scrobble trackID
             [''time'' \<mapsto> FormatInt_10 (UnixMilli E (trace w)), ''submission'' \<mapsto> ''true''])]\<rparr>) \<and>
   requests (trace (snd (snd (TrackEndedPlayback E s w trackID position True)))) =
     requests (trace w) @
       [Req_Scrobble trackID
          [''time'' \<mapsto> FormatInt_10 (UnixMilli E (trace w)), ''submission'' \<mapsto> ''true'']] \<and>
   [''time'' \<mapsto> FormatInt_10 (UnixMilli E (trace w)), ''submission'' \<mapsto> ''true''] ''submission''
     = Some ''true''"
  by (simp add: TrackEndedPlayback_def time_Now_UnixMilli_def client_Scrobble_def
      requests_append)

lemma decimal_example: "decimal 1700000000000 = ''1700000000000''"
  by (simp add: nth_Cons')

lemma FormatInt_10_example: "FormatInt_10 1700000000000 = ''1700000000000''"
  by (simp add: FormatInt_10_def decimal_example del: decimal.simps)

theorem C7_track_ended_playback_witness:
  "TrackEndedPlayback env_down provider_new world_start ''tr-1'' 215 False
     = (None, provider_new, world_start) \<and>
   TrackEndedPlayback env_up provider_new world_start ''tr-1'' 215 True =
     (None, provider_new,
      world_start\<lparr>trace :=
        [ReadClock,
         Call (Req_Scrobble ''tr-1''
           [''time'' \<mapsto> ''1700000000000'', ''submission'' \<mapsto> ''true''])]\<rparr>)"
  using C7_track_ended_playback [of env_down provider_new world_start "''tr-1''" 215]
    C7_track_ended_playback [of env_up provider_new world_start "''tr-1''" 215]
  by (simp add: env_up_def world_start_def FormatInt_10_example)

section \<open>The prefetch callback\<close>

lemma GetTrack_eq:
  "GetTrack E s w trackID =
     ((case snd (GetSong_reply E (trace w) trackID) of
         Some e \<Rightarrow> (None, Some e)
       | None \<Rightarrow> (toTrack (fst (GetSong_reply E (trace w) trackID)), None)),
      s, w\<lparr>trace := trace w @ [Call (Req_GetSong trackID)]\<rparr>)"
  by (simp add: GetTrack_def client_GetSong_def split: prod.splits option.splits)

lemma toTrack_CoverArtID: "map_option Track.CoverArtID (toTrack ch) = map_option Child.CoverArt ch"
  by (cases ch) (simp_all add: toTrack_def split: prod.split)

lemma GetPlaylists_app: "app (snd (snd (GetPlaylists E s w))) = app w"
proof (cases "cache_valid (playlistsCached s) (playlistsCachedAt s) (Unix E (trace w))")
  case True
  then show ?thesis by (simp add: GetPlaylists_valid)
next
  case False
  then show ?thesis by (simp add: GetPlaylists_fetch [OF False refl] split: option.split)
qed

lemma GetPlaylists_prefetchCoverCB:
  "prefetchCoverCB (fst (snd (GetPlaylists E s w))) = prefetchCoverCB s"
proof (cases "cache_valid (playlistsCached s) (playlistsCachedAt s) (Unix E (trace w))")
  case True
  then show ?thesis by (simp add: GetPlaylists_valid)
next
  case False
  then show ?thesis by (simp add: GetPlaylists_fetch [OF False refl] split: option.split)
qed

text \<open>
  Claim C9, as stated: whenever an operation translates a server record that carries a
  cover art ID, the registered callback is invoked with that ID. It fails on the code:
  with the callback \<open>log_cover\<close> registered, \<open>GetTrack\<close> returns a track whose cover art
  ID is "al-1", and the application's list of prefetch requests is still empty, where
  an invocation of the callback with "al-1" would have made it ["al-1"].
\<close>

theorem C9_prefetch_callback_counterexample:
  "prefetchCoverCB (SetPrefetchCoverCallback provider_new (Some log_cover)) = Some log_cover \<and>
   map_option Track.CoverArtID
     (fst (fst (GetTrack env_up (SetPrefetchCoverCallback provider_new (Some log_cover))
        world_start ''tr-1''))) = Some ''al-1'' \<and>
   app (snd (snd (GetTrack env_up (SetPrefetchCoverCallback provider_new (Some log_cover))
        world_start ''tr-1''))) = [] \<and>
   log_cover ''al-1'' (app world_start) = [''al-1'']"
  by (simp add: GetTrack_eq toTrack_CoverArtID SetPrefetchCoverCallback_def env_up_def
      world_start_def log_cover_def Child_two_artists_def)

text \<open>
  \<open>GetAlbum\<close> and \<open>GetPlaylist\<close>, like \<open>GetTrack\<close>, return the cover art ID of the
  record that the client returned.
\<close>

lemma GetAlbum_CoverArtID:
  assumes "GetAlbum_reply E (trace w) albumID = (Some a, None)"
  shows "\<exists>album. fst (GetAlbum mp ToLower E s w albumID) = Return (Some album, None) \<and>
           Album.CoverArtID (AlbumWithTracks.Album album) = AlbumID3.CoverArt a"
  using assms
  by (simp add: GetAlbum_def client_GetAlbum_def fillAlbum_def Let_def split: prod.splits)

lemma GetPlaylist_CoverArtID:
  assumes "GetPlaylist_reply E (trace w) playlistID = (Some p, None)"
  shows "\<exists>playlist. fst (GetPlaylist E s w playlistID) = Return (Some playlist, None) \<and>
           Playlist.CoverArtID (PlaylistWithTracks.Playlist playlist) = subsonic_Playlist.CoverArt p"
  using assms
  by (simp add: GetPlaylist_def client_GetPlaylist_def fillPlaylist_def Let_def)

lemma GetTrack_callback: "callback_not_invoked s w (snd (GetTrack E s w trackID))"
  by (simp add: callback_not_invoked_def GetTrack_eq)

lemma GetPlaylists_callback: "callback_not_invoked s w (snd (GetPlaylists E s w))"
  by (simp add: callback_not_invoked_def GetPlaylists_app GetPlaylists_prefetchCoverCB)

lemma GetAlbum_callback: "callback_not_invoked s w (snd (GetAlbum mp ToLower E s w albumID))"
  by (simp add: callback_not_invoked_def GetAlbum_def client_GetAlbum_def Let_def
      split: prod.splits option.splits)

lemma GetArtist_callback:
  "callback_not_invoked s w (snd (GetArtist mp ToLower MapSlice_Album E s w artistID))"
  by (simp add: callback_not_invoked_def GetArtist_def client_GetArtist_def
      split: prod.splits option.splits)

lemma GetArtistInfo_callback: "callback_not_invoked s w (snd (GetArtistInfo E s w artistID))"
  by (simp add: callback_not_invoked_def GetArtistInfo_def client_GetArtistInfo2_def
      split: prod.splits option.splits)

lemma GetArtists_callback: "callback_not_invoked s w (snd (GetArtists E s w))"
  by (simp add: callback_not_invoked_def GetArtists_def client_GetArtists_def
      split: prod.splits option.splits)

lemma GetFavorites_callback:
  "callback_not_invoked s w (snd (GetFavorites mp ToLower MapSlice_Album E s w))"
  by (simp add: callback_not_invoked_def GetFavorites_def client_GetStarred2_def
      split: prod.splits option.splits)

lemma GetPlaylist_callback: "callback_not_invoked s w (snd (GetPlaylist E s w playlistID))"
  by (simp add: callback_not_invoked_def GetPlaylist_def client_GetPlaylist_def Let_def
      split: prod.splits option.splits)

lemma GetRandomTracks_callback:
  "callback_not_invoked s w (snd (GetRandomTracks E s w genreName count))"
  by (simp add: callback_not_invoked_def GetRandomTracks_def client_GetRandomSongs_def Let_def
      split: prod.splits option.splits)

lemma GetSimilarTracks_callback:
  "callback_not_invoked s w (snd (GetSimilarTracks E s w artistID count))"
  by (simp add: callback_not_invoked_def GetSimilarTracks_def client_GetSimilarSongs2_def
      split: prod.splits option.splits)

lemma GetTopTracks_callback:
  "callback_not_invoked s w (snd (GetTopTracks E s w artist count))"
  by (simp add: callback_not_invoked_def GetTopTracks_def client_GetTopSongs_def Let_def
      split: prod.splits option.splits)

text \<open>
  Claim C9, amended. \<open>SetPrefetchCoverCallback\<close> stores the callback in the provider
  and does nothing else. None of the eleven methods of the file that translate server
  records which can carry a cover art ID (\<open>GetTrack\<close>, \<open>GetAlbum\<close>, \<open>GetArtist\<close>,
  \<open>GetArtistInfo\<close>, \<open>GetArtists\<close>, \<open>GetFavorites\<close>, \<open>GetPlaylist\<close>, \<open>GetPlaylists\<close>,
  \<open>GetRandomTracks\<close>, \<open>GetSimilarTracks\<close>, \<open>GetTopTracks\<close>) invokes the stored
  callback: whatever the callback, the arguments and the server's answer, the stored
  callback and the application's state after the call are those before it.
\<close>

theorem C9_prefetch_callback_stored_only:
  "SetPrefetchCoverCallback s cb = s\<lparr>prefetchCoverCB := cb\<rparr> \<and>
   callback_not_invoked s w (snd (GetTrack E s w trackID)) \<and>
   callback_not_invoked s w (snd (GetAlbum mp ToLower E s w albumID)) \<and>
   callback_not_invoked s w (snd (GetArtist mp ToLower MapSlice_Album E s w artistID)) \<and>
   callback_not_invoked s w (snd (GetArtistInfo E s w artistID)) \<and>
   callback_not_invoked s w (snd (GetArtists E s w)) \<and>
   callback_not_invoked s w (snd (GetFavorites mp ToLower MapSlice_Album E s w)) \<and>
   callback_not_invoked s w (snd (GetPlaylist E s w playlistID)) \<and>
   callback_not_invoked s w (snd (GetPlaylists E s w)) \<and>
   callback_not_invoked s w (snd (GetRandomTracks E s w genreName count)) \<and>
   callback_not_invoked s w (snd (GetSimilarTracks E s w artistID count)) \<and>
   callback_not_invoked s w (snd (GetTopTracks E s w artist count))"
  by (simp add: SetPrefetchCoverCallback_def GetTrack_callback GetAlbum_callback
      GetArtist_callback GetArtistInfo_callback GetArtists_callback GetFavorites_callback
      GetPlaylist_callback GetPlaylists_callback GetRandomTracks_callback
      GetSimilarTracks_callback GetTopTracks_callback)

text \<open>
  At a server all of whose records carry a cover art ID, with the logging callback
  stored: after each of the eleven methods the callback is still stored and the
  application's list of prefetch requests is still empty.
\<close>

theorem C9_prefetch_callback_stored_only_witness:
  "prefetchCoverCB provider_logging = Some log_cover \<and>
   app (snd (snd (GetTrack env_up provider_logging world_start ''tr-1''))) = [] \<and>
   app (snd (snd (GetAlbum release_type_bits ascii_ToLower env_up provider_logging world_start
     ''al-1''))) = [] \<and>
   app (snd (snd (GetArtist release_type_bits ascii_ToLower MapSlice_Album_nil env_up
     provider_logging world_start ''ar-1''))) = [] \<and>
   app (snd (snd (GetArtistInfo env_up provider_logging world_start ''ar-1''))) = [] \<and>
   app (snd (snd (GetArtists env_up provider_logging world_start))) = [] \<and>
   app (snd (snd (GetFavorites release_type_bits ascii_ToLower MapSlice_Album_nil env_up
     provider_logging world_start))) = [] \<and>
   app (snd (snd (GetPlaylist env_up provider_logging world_start ''pl-1''))) = [] \<and>
   app (snd (snd (GetPlaylists env_up provider_logging world_start))) = [] \<and>
   app (snd (snd (GetRandomTracks env_up provider_logging world_start ''Rock'' 10))) = [] \<and>
   app (snd (snd (GetSimilarTracks env_up provider_logging world_start ''ar-1'' 10))) = [] \<and>
   app (snd (snd (GetTopTracks env_up provider_logging world_start artist_plain 10))) = [] \<and>
   prefetchCoverCB (fst (snd (GetPlaylists env_up provider_logging world_start)))
     = Some log_cover"
  using C9_prefetch_callback_stored_only
    [where s = provider_logging and cb = "Some log_cover" and w = world_start and E = env_up
       and trackID = "''tr-1''" and albumID = "''al-1''" and artistID = "''ar-1''"
       and playlistID = "''pl-1''" and genreName = "''Rock''" and count = 10
       and artist = artist_plain and mp = release_type_bits and ToLower = ascii_ToLower
       and MapSlice_Album = MapSlice_Album_nil]
  by (simp add: callback_not_invoked_def provider_logging_def SetPrefetchCoverCallback_def
      world_start_def)

end
